theory Spec2Isabelle
  imports Main "HOL-Library.AList"
begin

section \<open>The debug session engine of \<^verbatim>\<open>adapter/debugsession.py\<close>\<close>

text \<open>
  A shallow embedding of the class \<^verbatim>\<open>DebugSession\<close>. The session object is a record
  that every method takes and returns; a raised exception is the \<open>Inl\<close> of a sum, returned
  together with the state the method had reached when it raised. The debugger backend
  (LLDB), the host's \<^verbatim>\<open>os.path\<close> and the Python evaluator are not part of the repository:
  what the backend holds is a record inside the session, what the host computes is a
  parameter.
\<close>

subsection \<open>Exceptions, JSON values, messages\<close>

datatype error =
    KeyError
  | TypeError
  | AttributeError
  | UnboundLocalError
  | AssertionError
  | UserError string bool
  | PyException string

datatype json =
    JNone
  | JBool bool
  | JInt int
  | JStr string
  | JList "json list"
  | JObj "(string \<times> json) list"

text \<open>What \<^verbatim>\<open>send_message\<close> is handed: an event, a reverse request or a response.\<close>

datatype message =
    Event string "(string \<times> json) list"
  | Request int string "(string \<times> json) list"
  | Response int string bool json

text \<open>What \<^verbatim>\<open>handle_message\<close> receives. \<open>InResponse seq success body msg\<close> holds
  \<^verbatim>\<open>message['request_seq']\<close>, \<^verbatim>\<open>message['success']\<close>, \<^verbatim>\<open>message.get('body')\<close> and
  \<^verbatim>\<open>message.get('message')\<close> (\<open>JNone\<close> when the key is absent).\<close>

datatype inbound =
    ConnectionLost
  | InResponse int bool json json
  | InRequest int string "(string \<times> json) list"

datatype log_level = LogInfo | LogWarning | LogError

text \<open>A completion callback is a closure; the model names it and records each call.\<close>

datatype callback = Callback nat

subsection \<open>Backend values\<close>

datatype format =
    eFormatDefault | eFormatHex | eFormatOctal | eFormatDecimal | eFormatBinary
  | eFormatFloat | eFormatPointer | eFormatUnsigned | eFormatCString | eFormatBytes
  | eFormatBytesWithASCII

datatype expr_type = SIMPLE | PYTHON | NATIVE

datatype value_type = eValueTypeVariableStatic | eValueTypeRegisterSet | eValueTypeOther

datatype stop_reason =
    eStopReasonInvalid | eStopReasonNone | eStopReasonTrace | eStopReasonBreakpoint
  | eStopReasonWatchpoint | eStopReasonSignal | eStopReasonException | eStopReasonExec
  | eStopReasonPlanComplete | eStopReasonThreadExiting | eStopReasonInstrumentation

text \<open>An \<^verbatim>\<open>SBValue\<close>: what the methods the engine calls on it return. \<open>GetValue\<close> and
  \<open>GetSummary\<close> depend on the format set with \<open>SetFormat\<close>.\<close>

datatype sbvalue = SBValue
  (sv_name: "string option")
  (sv_type_name: string)
  (sv_get_value: "format \<Rightarrow> string option")
  (sv_get_summary: "format \<Rightarrow> string option")
  (sv_is_pointer: bool)
  (sv_as_unsigned: int)
  (sv_is_synthetic: bool)
  (sv_value_type: value_type)
  (sv_is_valid: bool)
  (sv_children: "sbvalue list")
  (sv_non_synthetic: "sbvalue option")

record filespec =
  fs_is_valid :: bool
  fs_directory :: "string option"
  fs_filename :: "string option"
  fs_fullpath :: "string option"

text \<open>A stack frame: its thread and index, the file of its line entry, and what
  \<^verbatim>\<open>GetVariables(True, True, False, True)\<close> (arguments and locals),
  \<^verbatim>\<open>GetVariables(False, False, True, True)\<close> (statics and globals) and
  \<^verbatim>\<open>GetRegisters()\<close> list.\<close>

record frame =
  fr_thread_id :: int
  fr_frame_id :: int
  fr_line_filespec :: filespec
  fr_variables :: "sbvalue list"
  fr_statics_globals :: "sbvalue list"
  fr_registers :: "sbvalue list"

record thread =
  th_is_valid :: bool
  th_id :: int
  th_stop_reason :: stop_reason
  th_stop_data0 :: int
  th_stop_description :: string
  th_selected_frame :: int
  th_frames :: "frame list"
  th_stop_return_value :: sbvalue

text \<open>The process: its threads in creation order, the id of the selected thread, and
  the error \<^verbatim>\<open>Continue\<close> answers with, if any.\<close>

record process =
  p_threads :: "thread list"
  p_selected :: int
  p_continue_error :: "string option"

text \<open>The calls that make the backend act on the inferior, as the session records them
  in the order issued: the process and thread methods, and
  \<^verbatim>\<open>SBCommandInterpreter.HandleCommand\<close>.\<close>

datatype backend_cmd =
    Continue
  | StepOver int
  | StepInto int
  | StepOut int
  | StepInstruction int bool
  | HandleCommand string

record bp_location =
  loc_filespec :: filespec
  loc_line :: int
  loc_enabled :: bool

text \<open>An \<^verbatim>\<open>SBBreakpoint\<close> as the target holds it.\<close>

record backend_bp =
  bb_condition :: "string option"
  bb_ignore_count :: int
  bb_callback :: "string option"
  bb_locations :: "bp_location list"
  bb_address :: "int option"

text \<open>The target: its breakpoints by id, the id the next new breakpoint gets, whether the
  session listens to breakpoint-changed events, and how a file name and a line resolve to
  locations (the program's debug information).\<close>

record target =
  t_breakpoints :: "int \<rightharpoonup> backend_bp"
  t_next_id :: int
  t_bp_events :: bool
  t_resolve :: "string \<Rightarrow> int \<Rightarrow> bp_location list"

subsection \<open>Session data\<close>

text \<open>The location a hit is reported at: the breakpoint it belongs to and that
  breakpoint's hit count.\<close>

record bp_loc =
  bl_breakpoint :: int
  bl_hit_count :: int

text \<open>A compiled condition is a closure over the hit location and frame; it returns the
  truth value Python's \<^verbatim>\<open>not\<close> sees, or raises.\<close>

type_synonym bpcond = "bp_loc \<Rightarrow> frame \<Rightarrow> error + bool"

record adapter_data_t =
  ad_start :: int
  ad_end :: int
  ad_lines :: "int \<rightharpoonup> int"

record BreakpointInfo =
  info_id :: int
  exception_bp :: bool
  condition :: "bpcond option"
  log_message :: "string option"
  address :: "int option"
  adapter_data :: "adapter_data_t option"
  ignore_count :: int

definition new_BreakpointInfo :: "int \<Rightarrow> BreakpointInfo" where
  "new_BreakpointInfo i =
     \<lparr>info_id = i, exception_bp = False, condition = None, log_message = None,
      address = None, adapter_data = None, ignore_count = 0\<rparr>"

text \<open>The objects a handle can stand for.\<close>

datatype hobject =
    HFrame frame
  | LocalsScope frame
  | StaticsScope frame
  | GlobalsScope frame
  | RegistersScope frame
  | HValue sbvalue

datatype hkey = KFrame int nat | KName string

text \<open>Modelled from the spec: \<^verbatim>\<open>handles.HandleTree\<close>, whose module is not among the
  sources. The spec gives \<open>create(object, key, parentHandle) -> handle\<close>,
  \<open>get(handle) -> object|null\<close>, \<open>getPath(handle) -> (object, orderedPathSegments)|null\<close>
  and a \<open>reset()\<close> that invalidates all handles and starts a new generation; allocation is
  monotonic within a generation and zero is never a handle.\<close>

record handle_tree =
  ht_entries :: "int \<rightharpoonup> (hobject \<times> hkey \<times> int option)"
  ht_next :: int

definition ht_init :: handle_tree where
  "ht_init = \<lparr>ht_entries = Map.empty, ht_next = 1\<rparr>"

definition ht_create :: "hobject \<Rightarrow> hkey \<Rightarrow> int option \<Rightarrow> handle_tree \<Rightarrow> int \<times> handle_tree" where
  "ht_create obj k parent t =
     (ht_next t,
      t\<lparr>ht_entries := (ht_entries t)(ht_next t \<mapsto> (obj, k, parent)), ht_next := ht_next t + 1\<rparr>)"

definition ht_get :: "int \<Rightarrow> handle_tree \<Rightarrow> hobject option" where
  "ht_get h t = map_option fst (ht_entries t h)"

text \<open>The path of a handle, root first; \<open>n\<close> bounds the number of parent links followed
  (a parent is always an older handle of the same generation).\<close>

fun ht_path :: "nat \<Rightarrow> int \<Rightarrow> handle_tree \<Rightarrow> hkey list option" where
  "ht_path 0 h t = None"
| "ht_path (Suc n) h t =
     (case ht_entries t h of
        None \<Rightarrow> None
      | Some (obj, k, None) \<Rightarrow> Some [k]
      | Some (obj, k, Some p) \<Rightarrow>
          (case ht_path n p t of None \<Rightarrow> None | Some ks \<Rightarrow> Some (ks @ [k])))"

definition ht_get_vpath :: "int \<Rightarrow> handle_tree \<Rightarrow> (hobject \<times> hkey list) option" where
  "ht_get_vpath h t =
     (case ht_get h t of
        None \<Rightarrow> None
      | Some obj \<Rightarrow>
          (case ht_path (nat (ht_next t)) h t of None \<Rightarrow> None | Some ks \<Rightarrow> Some (obj, ks)))"

definition ht_reset :: "handle_tree \<Rightarrow> handle_tree" where
  "ht_reset t = ht_init"

text \<open>A line-breakpoint table is keyed by a file path or by a source reference.\<close>

datatype file_id = FilePath string | SourceRef int

record dasm =
  dasm_source_ref :: int
  dasm_source_name :: string
  dasm_start_address :: int
  dasm_end_address :: int
  dasm_address_by_line_num :: "int \<Rightarrow> int"

record launch_args_t =
  la_noDebug :: bool
  la_expressions :: expr_type
  la_sourceMap :: "(string \<times> string option) list"

text \<open>A compiled remote-prefix pattern: applied to a path it returns \<^verbatim>\<open>m.group(1)\<close> of the
  match object, or \<open>None\<close> when \<^verbatim>\<open>match\<close> returns no match.\<close>

type_synonym regex = "string \<Rightarrow> string option"

record session =
  var_refs :: handle_tree
  line_breakpoints :: "file_id \<rightharpoonup> (int \<times> int) list"
  breakpoints :: "int \<rightharpoonup> BreakpointInfo"
  target :: "target option"
  process :: "process option"
  launch_args :: "launch_args_t option"
  disassembly :: "int \<rightharpoonup> dasm"
  request_seq :: int
  pending_requests :: "int \<rightharpoonup> callback"
  known_threads :: "int list"
  source_map :: "(regex \<times> string option) list option"
  filespec_cache :: "(string option \<times> string option) \<rightharpoonup> string option"
  global_format :: format
  show_disassembly :: string
  deref_pointers :: bool
  suppress_missing_sources :: bool
  interp :: "string \<Rightarrow> bool \<times> string"
  issued :: "backend_cmd list"
  sent :: "message list"
  logged :: "(log_level \<times> string \<times> json list) list"
  completed :: "(callback \<times> bool \<times> json) list"

text \<open>\<^verbatim>\<open>DebugSession.__init__\<close>; the argument is
  \<^verbatim>\<open>parameters.get('suppressMissingSourceFiles', True)\<close>.\<close>

definition init_session :: "bool \<Rightarrow> session" where
  "init_session suppress =
     \<lparr>var_refs = ht_init, line_breakpoints = Map.empty, breakpoints = Map.empty,
      target = None, process = None, launch_args = None, disassembly = Map.empty,
      request_seq = 1, pending_requests = Map.empty, known_threads = [],
      source_map = None, filespec_cache = Map.empty, global_format = eFormatDefault,
      show_disassembly = ''auto'', deref_pointers = True,
      suppress_missing_sources = suppress,
      interp = (\<lambda>c. (True, [])), issued = [],
      sent = [], logged = [], completed = []\<rparr>"

type_synonym 'a outcome = "(error + 'a) \<times> session"

subsection \<open>The host\<close>

text \<open>What an evaluation hands back: an \<^verbatim>\<open>SBValue\<close>, an \<^verbatim>\<open>expressions.Value\<close> wrapping
  one, an \<^verbatim>\<open>SBError\<close> with its message, or any other Python object with its \<^verbatim>\<open>str()\<close>.\<close>

datatype pyvalue =
    PySBValue sbvalue
  | PyWrapped sbvalue
  | PySBError string
  | PyObject string

datatype compile_mode = ModeEval | ModeExec

datatype compile_error = SyntaxError string | OtherCompileError string

text \<open>The functions of the Python library, of the modules \<^verbatim>\<open>expressions\<close> and \<^verbatim>\<open>lldb\<close>, and
  of the file system that the engine calls. They are parameters of the model.
  \<open>py_str\<close> is \<^verbatim>\<open>str()\<close> of an exception and \<open>sberror_str\<close> that of an \<^verbatim>\<open>SBError\<close> with the
  given message; \<open>py_compile src mode\<close> is \<open>None\<close> when \<^verbatim>\<open>compile(src, ..., mode)\<close> succeeds;
  \<open>py_eval_cond\<close> evaluates compiled condition code at a hit and gives the truth value of
  the result; \<open>eval_native\<close> is \<^verbatim>\<open>EvaluateExpression\<close> in a frame or in the target, with the
  message of \<^verbatim>\<open>GetError()\<close> on failure; \<open>eval_python\<close> is \<^verbatim>\<open>eval\<close> of a preprocessed
  expression with the frame's variables; \<open>split_log_message\<close> cuts a log message where
  \<^verbatim>\<open>substitution_regex\<close> matches.\<close>

datatype segment = Literal string | Placeholder string

record host =
  os_normpath :: "string \<Rightarrow> string"
  os_normcase :: "string \<Rightarrow> string"
  os_basename :: "string \<Rightarrow> string"
  os_isfile :: "string \<Rightarrow> bool"
  fnmatch_translate :: "string \<Rightarrow> string"
  re_compile :: "string \<Rightarrow> regex"
  py_int :: "string \<Rightarrow> int option"
  py_str :: "error \<Rightarrow> string"
  sberror_str :: "string \<Rightarrow> string"
  format_exc :: "error \<Rightarrow> string"
  fmt_hex :: "int \<Rightarrow> string"
  preprocess_python_expr :: "string \<Rightarrow> string"
  preprocess_simple_expr :: "string \<Rightarrow> string"
  py_compile :: "string \<Rightarrow> compile_mode \<Rightarrow> compile_error option"
  py_eval_cond :: "string \<Rightarrow> compile_mode \<Rightarrow> bp_loc \<Rightarrow> frame \<Rightarrow> error + bool"
  eval_native :: "string \<Rightarrow> frame option \<Rightarrow> string + sbvalue"
  eval_python :: "expr_type \<Rightarrow> string \<Rightarrow> frame \<Rightarrow> error + pyvalue"
  split_log_message :: "string \<Rightarrow> segment list"
  escape_variable_name :: "string \<Rightarrow> string"

subsection \<open>Sending\<close>

definition send_message :: "message \<Rightarrow> session \<Rightarrow> session" where
  "send_message m s = s\<lparr>sent := sent s @ [m]\<rparr>"

definition send_event :: "string \<Rightarrow> (string \<times> json) list \<Rightarrow> session \<Rightarrow> session" where
  "send_event ev body s = send_message (Event ev body) s"

definition log_record :: "log_level \<Rightarrow> string \<Rightarrow> json list \<Rightarrow> session \<Rightarrow> session" where
  "log_record lvl fmt args s = s\<lparr>logged := logged s @ [(lvl, fmt, args)]\<rparr>"

text \<open>\<^verbatim>\<open>console_msg(output, category=None)\<close>: nothing is sent for an empty output.
  (\<^verbatim>\<open>from_lldb_str\<close> and \<^verbatim>\<open>to_lldb_str\<close> only change the string's encoding; the model's
  strings are byte lists and both are the identity.)\<close>

definition console_msg :: "string \<Rightarrow> json \<Rightarrow> session \<Rightarrow> session" where
  "console_msg output category s =
     (if output \<noteq> [] then
        send_event ''output''
          [(''category'', category), (''output'', JStr (output @ [CHR 0x0A]))] s
      else s)"

definition console_err :: "string \<Rightarrow> session \<Rightarrow> session" where
  "console_err output s = console_msg output (JStr ''stderr'') s"

subsection \<open>Request router\<close>

definition send_request :: "string \<Rightarrow> (string \<times> json) list \<Rightarrow> callback \<Rightarrow> session \<Rightarrow> session" where
  "send_request command args on_complete s =
     (let request = Request (request_seq s) command args;
          s1 = s\<lparr>pending_requests := (pending_requests s)(request_seq s \<mapsto> on_complete)\<rparr>;
          s2 = s1\<lparr>request_seq := request_seq s1 + 1\<rparr>
      in send_message request s2)"

text \<open>Calling a completion callback: \<^verbatim>\<open>on_complete(ok, payload)\<close>.\<close>

definition call_on_complete :: "callback \<Rightarrow> bool \<Rightarrow> json \<Rightarrow> session \<Rightarrow> session" where
  "call_on_complete cb ok payload s = s\<lparr>completed := completed s @ [(cb, ok, payload)]\<rparr>"

datatype handler_result = AsyncResponse | Returned json

definition error_body :: "string \<Rightarrow> json" where
  "error_body fmt =
     JObj [(''error'', JObj [(''id'', JInt 0), (''format'', JStr fmt), (''showUser'', JBool True)])]"

text \<open>\<^verbatim>\<open>send_response(response, result)\<close>, where \<open>result\<close> is what the handler returned
  (\<open>None\<close> or a dict) or the exception it raised.\<close>

definition send_response :: "host \<Rightarrow> int \<Rightarrow> string \<Rightarrow> (error + json) \<Rightarrow> session \<Rightarrow> session" where
  "send_response h req_seq command result s =
     (case result of
        Inr body \<Rightarrow> send_message (Response req_seq command True body) s
      | Inl (UserError msg no_console) \<Rightarrow>
          (let s1 = (if \<not> no_console then console_err (''Error: '' @ msg) s else s)
           in send_message (Response req_seq command False (error_body msg)) s1)
      | Inl e \<Rightarrow>
          (let tb = format_exc h e;
               s1 = log_record LogError ''Internal debugger error:\<newline>%s'' [JStr tb] s;
               s2 = console_err (''Internal debugger error:'' @ [CHR 0x0A] @ tb) s1;
               msg = ''Internal debugger error: '' @ py_str h e
           in send_message (Response req_seq command False (error_body msg)) s2))"

text \<open>\<^verbatim>\<open>handle_message\<close>. \<open>handlers\<close> is \<^verbatim>\<open>getattr(self, 'DEBUG_' + command, None)\<close>;
  \<open>disconnect\<close> is \<^verbatim>\<open>self.DEBUG_disconnect(None)\<close>.\<close>

definition handle_message ::
  "host \<Rightarrow> (string \<Rightarrow> ((string \<times> json) list \<Rightarrow> session \<Rightarrow> handler_result outcome) option) \<Rightarrow>
   (session \<Rightarrow> unit outcome) \<Rightarrow> inbound \<Rightarrow> session \<Rightarrow> unit outcome" where
  "handle_message h handlers disconnect message s =
     (case message of
        ConnectionLost \<Rightarrow> disconnect s
      | InResponse seq success body msg \<Rightarrow>
          (case pending_requests s seq of
             None \<Rightarrow>
               (Inr (),
                log_record LogError ''Received response without pending request, seq=%d''
                  [JInt seq] s)
           | Some on_complete \<Rightarrow>
               (let s1 = s\<lparr>pending_requests := (pending_requests s)(seq := None)\<rparr>
                in if success then (Inr (), call_on_complete on_complete True body s1)
                   else (Inr (), call_on_complete on_complete False msg s1)))
      | InRequest seq command args \<Rightarrow>
          (let s1 = log_record LogInfo ''### Handling command: %s'' [JStr command] s
           in case handlers command of
                Some handler \<Rightarrow>
                  (case handler args s1 of
                     (Inr AsyncResponse, s2) \<Rightarrow> (Inr (), s2)
                   | (Inr (Returned result), s2) \<Rightarrow>
                       (Inr (), send_response h seq command (Inr result) s2)
                   | (Inl e, s2) \<Rightarrow> (Inr (), send_response h seq command (Inl e) s2))
              | None \<Rightarrow>
                  (let s2 = log_record LogWarning ''No handler for %s'' [JStr command] s1
                   in (Inr (), send_message (Response seq command False JNone) s2))))"

subsection \<open>Source locator\<close>

definition endswith :: "string \<Rightarrow> string \<Rightarrow> bool" where
  "endswith xs suf \<longleftrightarrow> length suf \<le> length xs \<and> drop (length xs - length suf) xs = suf"

definition startswith :: "string \<Rightarrow> string \<Rightarrow> bool" where
  "startswith xs pre \<longleftrightarrow> take (length pre) xs = pre"

text \<open>The loop of \<^verbatim>\<open>make_source_map\<close> over the items of \<^verbatim>\<open>launch_args['sourceMap']\<close>. The
  suffix the assertion asks for is \<^verbatim>\<open>\Z(?ms)\<close>, seven characters.\<close>

fun make_source_map_loop ::
  "host \<Rightarrow> (string \<times> string option) list \<Rightarrow> (regex \<times> string option) list \<Rightarrow>
   error + (regex \<times> string option) list" where
  "make_source_map_loop h [] acc = Inr acc"
| "make_source_map_loop h ((remote_prefix, local_prefix) # rest) acc =
     (let regex = fnmatch_translate h remote_prefix
      in if \<not> endswith regex (CHR 0x5C # ''Z(?ms)'') then Inl AssertionError
         else make_source_map_loop h rest
                (acc @ [(re_compile h (''('' @ take (length regex - 7) regex @ '').*''),
                         local_prefix)]))"

definition make_source_map :: "host \<Rightarrow> session \<Rightarrow> unit outcome" where
  "make_source_map h s =
     (case launch_args s of
        None \<Rightarrow> (Inl AttributeError, s)
      | Some la \<Rightarrow>
          (case make_source_map_loop h (la_sourceMap la) [] of
             Inl e \<Rightarrow> (Inl e, s)
           | Inr m \<Rightarrow> (Inr (), s\<lparr>source_map := Some m\<rparr>)))"

text \<open>The loop of \<^verbatim>\<open>map_filespec_to_local_uncached\<close> over the rules: \<open>path\<close> is the
  normalised path, \<open>path_normcased\<close> what the patterns are matched against.\<close>

fun source_map_loop ::
  "host \<Rightarrow> (regex \<times> string option) list \<Rightarrow> string \<Rightarrow> string \<Rightarrow> string option" where
  "source_map_loop h [] path path_normcased = Some path"
| "source_map_loop h ((remote_prefix_regex, local_prefix) # rest) path path_normcased =
     (case remote_prefix_regex path_normcased of
        None \<Rightarrow> source_map_loop h rest path path_normcased
      | Some group1 \<Rightarrow>
          (case local_prefix of
             None \<Rightarrow> None
           | Some lp \<Rightarrow> Some (os_normpath h (lp @ drop (length group1) path))))"

definition map_filespec_to_local_uncached :: "host \<Rightarrow> filespec \<Rightarrow> session \<Rightarrow> string option outcome" where
  "map_filespec_to_local_uncached h fs s =
     (case (if source_map s = None then make_source_map h s else (Inr (), s)) of
        (Inl e, s1) \<Rightarrow> (Inl e, s1)
      | (Inr u, s1) \<Rightarrow>
          (case fs_fullpath fs of
             None \<Rightarrow> (Inr None, s1)
           | Some p \<Rightarrow>
               (let path = os_normpath h p;
                    path_normcased = os_normcase h path
                in case source_map s1 of
                     None \<Rightarrow> (Inl TypeError, s1)
                   | Some rules \<Rightarrow> (Inr (source_map_loop h rules path path_normcased), s1))))"

text \<open>\<^verbatim>\<open>os.path.isfile(path)\<close> is \<^verbatim>\<open>os.stat(path)\<close> under an \<^verbatim>\<open>except os.error\<close>: for \<open>None\<close>
  \<^verbatim>\<open>os.stat\<close> raises \<^verbatim>\<open>TypeError\<close>, which is not caught.\<close>

definition os_path_isfile :: "host \<Rightarrow> string option \<Rightarrow> error + bool" where
  "os_path_isfile h p = (case p of None \<Rightarrow> Inl TypeError | Some q \<Rightarrow> Inr (os_isfile h q))"

definition json_opt :: "string option \<Rightarrow> json" where
  "json_opt x = (case x of None \<Rightarrow> JNone | Some v \<Rightarrow> JStr v)"

definition map_filespec_to_local :: "host \<Rightarrow> filespec \<Rightarrow> session \<Rightarrow> string option outcome" where
  "map_filespec_to_local h fs s =
     (if \<not> fs_is_valid fs then (Inr None, s)
      else
        (let key = (fs_directory fs, fs_filename fs)
         in case filespec_cache s key of
              Some local_path \<Rightarrow> (Inr local_path, s)
            | None \<Rightarrow>
                (case map_filespec_to_local_uncached h fs s of
                   (Inl e, s1) \<Rightarrow> (Inl e, s1)
                 | (Inr local_path, s1) \<Rightarrow>
                     (let s2 = log_record LogInfo ''Mapped %s to %s''
                                 [json_opt (fs_fullpath fs), json_opt local_path] s1
                      in if suppress_missing_sources s2 then
                           (case os_path_isfile h local_path of
                              Inl e \<Rightarrow> (Inl e, s2)
                            | Inr is_file \<Rightarrow>
                                (let local_path' = (if \<not> is_file then None else local_path)
                                 in (Inr local_path',
                                     s2\<lparr>filespec_cache := (filespec_cache s2)(key \<mapsto> local_path')\<rparr>)))
                         else
                           (Inr local_path,
                            s2\<lparr>filespec_cache := (filespec_cache s2)(key \<mapsto> local_path)\<rparr>)))))"

text \<open>\<^verbatim>\<open>in_disassembly(frame)\<close>: should the frame be shown as disassembly?\<close>

definition in_disassembly :: "host \<Rightarrow> frame \<Rightarrow> session \<Rightarrow> bool outcome" where
  "in_disassembly h fr s =
     (if show_disassembly s = ''never'' then (Inr False, s)
      else if show_disassembly s = ''always'' then (Inr True, s)
      else
        (case map_filespec_to_local h (fr_line_filespec fr) s of
           (Inl e, s1) \<Rightarrow> (Inl e, s1)
         | (Inr local_path, s1) \<Rightarrow> (Inr (local_path = None), s1)))"

subsection \<open>Resuming the inferior\<close>

text \<open>What the backend hands out for an id it does not know: invalid objects, on which
  every method is a no-op.\<close>

definition invalid_filespec :: filespec where
  "invalid_filespec =
     \<lparr>fs_is_valid = False, fs_directory = None, fs_filename = None, fs_fullpath = None\<rparr>"

definition invalid_sbvalue :: sbvalue where
  "invalid_sbvalue =
     SBValue None [] (\<lambda>f. None) (\<lambda>f. None) False 0 False eValueTypeOther False [] None"

definition invalid_frame :: frame where
  "invalid_frame =
     \<lparr>fr_thread_id = 0, fr_frame_id = 0, fr_line_filespec = invalid_filespec,
      fr_variables = [], fr_statics_globals = [], fr_registers = []\<rparr>"

definition invalid_thread :: thread where
  "invalid_thread =
     \<lparr>th_is_valid = False, th_id = 0, th_stop_reason = eStopReasonInvalid, th_stop_data0 = 0,
      th_stop_description = [], th_selected_frame = 0, th_frames = [],
      th_stop_return_value = invalid_sbvalue\<rparr>"

definition GetFrameAtIndex0 :: "thread \<Rightarrow> frame" where
  "GetFrameAtIndex0 t = (case th_frames t of [] \<Rightarrow> invalid_frame | f # fs \<Rightarrow> f)"

definition GetSelectedFrame :: "thread \<Rightarrow> frame" where
  "GetSelectedFrame t =
     (case find (\<lambda>f. fr_frame_id f = th_selected_frame t) (th_frames t) of
        Some f \<Rightarrow> f
      | None \<Rightarrow> invalid_frame)"

definition GetThreadByID :: "process \<Rightarrow> int \<Rightarrow> thread" where
  "GetThreadByID p tid =
     (case find (\<lambda>t. th_id t = tid) (p_threads p) of Some t \<Rightarrow> t | None \<Rightarrow> invalid_thread)"

definition GetSelectedThread :: "process \<Rightarrow> thread" where
  "GetSelectedThread p = GetThreadByID p (p_selected p)"

text \<open>A stepping method called on a thread: the backend acts only for a valid thread.\<close>

definition thread_cmd :: "thread \<Rightarrow> backend_cmd \<Rightarrow> session \<Rightarrow> session" where
  "thread_cmd th c s = (if th_is_valid th then s\<lparr>issued := issued s @ [c]\<rparr> else s)"

text \<open>\<^verbatim>\<open>before_resume\<close>: clears out cached state that becomes invalid once the debuggee
  resumes.\<close>

definition before_resume :: "session \<Rightarrow> session" where
  "before_resume s = s\<lparr>var_refs := ht_reset (var_refs s)\<rparr>"

definition DEBUG_continue :: "session \<Rightarrow> json outcome" where
  "DEBUG_continue s =
     (let s1 = before_resume s
      in case process s1 of
           None \<Rightarrow> (Inl AttributeError, s1)
         | Some p \<Rightarrow>
             (let s2 = s1\<lparr>issued := issued s1 @ [Continue]\<rparr>
              in case p_continue_error p of
                   Some msg \<Rightarrow> (Inl (UserError msg False), s2)
                 | None \<Rightarrow> (Inr JNone, s2)))"

definition DEBUG_next :: "host \<Rightarrow> int \<Rightarrow> session \<Rightarrow> json outcome" where
  "DEBUG_next h tid s =
     (let s1 = before_resume s
      in case process s1 of
           None \<Rightarrow> (Inl AttributeError, s1)
         | Some p \<Rightarrow>
             (let thread = GetThreadByID p tid
              in case in_disassembly h (GetFrameAtIndex0 thread) s1 of
                   (Inl e, s2) \<Rightarrow> (Inl e, s2)
                 | (Inr dis, s2) \<Rightarrow>
                     (if \<not> dis then (Inr JNone, thread_cmd thread (StepOver (th_id thread)) s2)
                      else (Inr JNone, thread_cmd thread (StepInstruction (th_id thread) True) s2))))"

definition DEBUG_stepIn :: "host \<Rightarrow> int \<Rightarrow> session \<Rightarrow> json outcome" where
  "DEBUG_stepIn h tid s =
     (let s1 = before_resume s
      in case process s1 of
           None \<Rightarrow> (Inl AttributeError, s1)
         | Some p \<Rightarrow>
             (let thread = GetThreadByID p tid
              in case in_disassembly h (GetFrameAtIndex0 thread) s1 of
                   (Inl e, s2) \<Rightarrow> (Inl e, s2)
                 | (Inr dis, s2) \<Rightarrow>
                     (if \<not> dis then (Inr JNone, thread_cmd thread (StepInto (th_id thread)) s2)
                      else (Inr JNone, thread_cmd thread (StepInstruction (th_id thread) False) s2))))"

definition DEBUG_stepOut :: "int \<Rightarrow> session \<Rightarrow> json outcome" where
  "DEBUG_stepOut tid s =
     (let s1 = before_resume s
      in case process s1 of
           None \<Rightarrow> (Inl AttributeError, s1)
         | Some p \<Rightarrow>
             (let thread = GetThreadByID p tid
              in (Inr JNone, thread_cmd thread (StepOut (th_id thread)) s1)))"

text \<open>\<^verbatim>\<open>reverse_exec(commands)\<close>: hands each command to the command interpreter and stops at
  the first that does not succeed.\<close>

fun reverse_exec :: "string list \<Rightarrow> session \<Rightarrow> session" where
  "reverse_exec [] s = s"
| "reverse_exec (command # commands) s =
     (let s1 = s\<lparr>issued := issued s @ [HandleCommand command]\<rparr>;
          (succeeded, output) = interp s command
      in if \<not> succeeded then console_err output s1 else reverse_exec commands s1)"

definition DEBUG_stepBack :: "host \<Rightarrow> int \<Rightarrow> session \<Rightarrow> json outcome" where
  "DEBUG_stepBack h tid s =
     (let s1 = s\<lparr>show_disassembly := ''always''\<rparr>
      in (Inr JNone,
          reverse_exec
            [''process plugin packet send Hc'' @ fmt_hex h tid,
             ''process plugin packet send bs'',
             ''process plugin packet send bs'',
             ''stepi''] s1))"

definition DEBUG_reverseContinue :: "session \<Rightarrow> json outcome" where
  "DEBUG_reverseContinue s =
     (Inr JNone,
      reverse_exec
        [''process plugin packet send bc'',
         ''process plugin packet send bs'',
         ''stepi''] s)"

subsection \<open>Event normalizer: stops\<close>

text \<open>\<^verbatim>\<open>update_threads\<close>. The source keeps thread ids in Python sets; the model lists a
  set's members without repetition, in the order they were met.\<close>

definition update_threads :: "session \<Rightarrow> unit outcome" where
  "update_threads s =
     (case process s of
        None \<Rightarrow> (Inl TypeError, s)
      | Some p \<Rightarrow>
          (let threads = remdups (map th_id (p_threads p));
               started = filter (\<lambda>t. t \<notin> set (known_threads s)) threads;
               exited = filter (\<lambda>t. t \<notin> set threads) (known_threads s);
               s1 = fold (\<lambda>thread_id. send_event ''thread''
                            [(''threadId'', JInt thread_id), (''reason'', JStr ''exited'')]) exited s;
               s2 = fold (\<lambda>thread_id. send_event ''thread''
                            [(''threadId'', JInt thread_id), (''reason'', JStr ''started'')]) started s1
           in (Inr (), s2\<lparr>known_threads := threads\<rparr>)))"

definition has_stop_reason :: "thread \<Rightarrow> bool" where
  "has_stop_reason t \<longleftrightarrow>
     th_stop_reason t \<noteq> eStopReasonInvalid \<and> th_stop_reason t \<noteq> eStopReasonNone"

text \<open>The first half of \<^verbatim>\<open>notify_target_stopped\<close>: the thread that caused the stop, and the
  session after it has been selected.\<close>

definition find_stopped_thread :: "process \<Rightarrow> session \<Rightarrow> thread option \<times> session" where
  "find_stopped_thread p s =
     (let thread = GetSelectedThread p
      in if th_is_valid thread \<and> has_stop_reason thread then (Some thread, s)
         else
           (case find has_stop_reason (p_threads p) of
              Some t \<Rightarrow> (Some t, s\<lparr>process := Some (p\<lparr>p_selected := th_id t\<rparr>)\<rparr>)
            | None \<Rightarrow> (None, s)))"

definition notify_target_stopped :: "session \<Rightarrow> unit outcome" where
  "notify_target_stopped s0 =
     (case update_threads s0 of
        (Inl e, s) \<Rightarrow> (Inl e, s)
      | (Inr u, s) \<Rightarrow>
          (case process s of
             None \<Rightarrow> (Inl AttributeError, s)
           | Some p \<Rightarrow>
               (case find_stopped_thread p s of
                  (None, s1) \<Rightarrow>
                    (Inr (), send_event ''stopped'' [(''allThreadsStopped'', JBool True)] s1)
                | (Some stopped_thread, s1) \<Rightarrow>
                    (let stop_reason = th_stop_reason stopped_thread
                     in if stop_reason = eStopReasonBreakpoint then
                          (let bp_id = th_stop_data0 stopped_thread;
                               stop_reason_str =
                                 (case breakpoints s1 bp_id of
                                    Some bp_info \<Rightarrow>
                                      (if exception_bp bp_info then ''exception'' else ''breakpoint'')
                                  | None \<Rightarrow> ''breakpoint'')
                           in (Inr (),
                               send_event ''stopped''
                                 [(''allThreadsStopped'', JBool True),
                                  (''reason'', JStr stop_reason_str),
                                  (''threadId'', JInt (th_id stopped_thread))] s1))
                        else if stop_reason = eStopReasonTrace \<or> stop_reason = eStopReasonPlanComplete then
                          (Inr (),
                           send_event ''stopped''
                             [(''allThreadsStopped'', JBool True),
                              (''reason'', JStr ''step''),
                              (''threadId'', JInt (th_id stopped_thread))] s1)
                        else
                          (let stop_reason_str =
                                 (if stop_reason = eStopReasonWatchpoint then ''watchpoint''
                                  else if stop_reason = eStopReasonSignal then ''signal''
                                  else if stop_reason = eStopReasonException then ''exception''
                                  else ''unknown'');
                               description = th_stop_description stopped_thread;
                               s2 = console_msg (''Stop reason: '' @ description) JNone s1
                           in (Inr (),
                               send_event ''stopped''
                                 [(''allThreadsStopped'', JBool True),
                                  (''text'', JStr description),
                                  (''reason'', JStr stop_reason_str),
                                  (''threadId'', JInt (th_id stopped_thread))] s2))))))"

subsection \<open>Expression dispatcher\<close>

text \<open>\<^verbatim>\<open>get_expression_type\<close>: the evaluator an expression asks for by its prefix, else the
  one \<^verbatim>\<open>launch_args\<close> configures (\<^verbatim>\<open>simple\<close> when it configures none).\<close>

definition get_expression_type :: "string \<Rightarrow> session \<Rightarrow> error + (expr_type \<times> string)" where
  "get_expression_type expr s =
     (if startswith expr ''/nat '' then Inr (NATIVE, drop 5 expr)
      else if startswith expr ''/py '' then Inr (PYTHON, drop 4 expr)
      else if startswith expr ''/se '' then Inr (SIMPLE, drop 4 expr)
      else (case launch_args s of
              None \<Rightarrow> Inl AttributeError
            | Some la \<Rightarrow> Inr (la_expressions la, expr)))"

text \<open>\<^verbatim>\<open>set_selected_frame\<close>: selects the frame in its thread and the thread in the process.\<close>

definition set_selected_frame :: "frame \<Rightarrow> session \<Rightarrow> session" where
  "set_selected_frame fr s =
     (case process s of
        None \<Rightarrow> s
      | Some p \<Rightarrow>
          s\<lparr>process := Some (p\<lparr>
               p_threads :=
                 map (\<lambda>t. if th_id t = fr_thread_id fr
                           then t\<lparr>th_selected_frame := fr_frame_id fr\<rparr> else t) (p_threads p),
               p_selected := fr_thread_id fr\<rparr>)\<rparr>)"

text \<open>\<^verbatim>\<open>evaluate_expr_in_frame(expr, frame)\<close>: an \<^verbatim>\<open>SBValue\<close> or a Python value on success, an
  \<^verbatim>\<open>SBError\<close> on failure.\<close>

definition evaluate_expr_in_frame :: "host \<Rightarrow> string \<Rightarrow> frame option \<Rightarrow> session \<Rightarrow> pyvalue outcome" where
  "evaluate_expr_in_frame h expr0 frame0 s =
     (case get_expression_type expr0 s of
        Inl e \<Rightarrow> (Inl e, s)
      | Inr (ty, expr) \<Rightarrow>
          if ty = NATIVE then
            (case eval_native h expr frame0 of
               Inr result \<Rightarrow> (Inr (PySBValue result), s)
             | Inl msg \<Rightarrow> (Inr (PySBError msg), s))
          else
            (case (case frame0 of
                     Some f \<Rightarrow> Inr f
                   | None \<Rightarrow>
                       (case process s of
                          None \<Rightarrow> Inl AttributeError
                        | Some p \<Rightarrow> Inr (GetSelectedFrame (GetSelectedThread p)))) of
               Inl e \<Rightarrow> (Inl e, s)
             | Inr frame \<Rightarrow>
                 (if ty = PYTHON then
                    (let expr' = preprocess_python_expr h expr;
                         s1 = set_selected_frame frame s
                     in case eval_python h PYTHON expr' frame of
                          Inr v \<Rightarrow> (Inr v, s1)
                        | Inl e \<Rightarrow> (Inr (PySBError (py_str h e)), s1))
                  else
                    (let expr' = preprocess_simple_expr h expr;
                         s1 = log_record LogInfo ''Preprocessed expr: %s'' [JStr expr'] s
                     in case eval_python h SIMPLE expr' frame of
                          Inr v \<Rightarrow> (Inr v, s1)
                        | Inl e \<Rightarrow> (Inr (PySBError (py_str h e)), s1)))))"

text \<open>\<^verbatim>\<open>get_var_value(var, format)\<close>: a printable value of an \<^verbatim>\<open>SBValue\<close> under a format,
  without its line breaks.\<close>

definition get_var_value :: "sbvalue \<Rightarrow> format \<Rightarrow> session \<Rightarrow> string option" where
  "get_var_value var fmt s =
     (let v =
        (if sv_is_pointer var \<and> deref_pointers s \<and> fmt = eFormatDefault then
           (if sv_as_unsigned var = 0 then Some ''<null>'' else sv_get_summary var fmt)
         else
           (case sv_get_value var fmt of
              None \<Rightarrow> sv_get_summary var fmt
            | Some x \<Rightarrow> Some x))
      in map_option (filter (\<lambda>c. c \<noteq> CHR 0x0A)) v)"

definition get_var_value_not_null :: "sbvalue \<Rightarrow> format \<Rightarrow> bool \<Rightarrow> session \<Rightarrow> string" where
  "get_var_value_not_null var fmt is_container s =
     (case get_var_value var fmt s of
        Some v \<Rightarrow> v
      | None \<Rightarrow> (if is_container then sv_type_name var else ''<not available>''))"

definition get_var_handle :: "sbvalue \<Rightarrow> hkey \<Rightarrow> int option \<Rightarrow> session \<Rightarrow> int \<times> session" where
  "get_var_handle var k parent_handle s =
     (if sv_children var \<noteq> [] \<or> sv_is_synthetic var then
        (let (handle, t) = ht_create (HValue var) k parent_handle (var_refs s)
         in (handle, s\<lparr>var_refs := t\<rparr>))
      else (0, s))"

definition format_codes :: "(string \<times> format) list" where
  "format_codes =
     [('',h'', eFormatHex),
      ('',x'', eFormatHex),
      ('',o'', eFormatOctal),
      ('',d'', eFormatDecimal),
      ('',b'', eFormatBinary),
      ('',f'', eFormatFloat),
      ('',p'', eFormatPointer),
      ('',u'', eFormatUnsigned),
      ('',s'', eFormatCString),
      ('',y'', eFormatBytes),
      ('',Y'', eFormatBytesWithASCII)]"

text \<open>The suffix loop of \<^verbatim>\<open>evaluate_expr\<close>: the format and the expression it leaves.\<close>

fun parse_format_suffix :: "(string \<times> format) list \<Rightarrow> format \<Rightarrow> string \<Rightarrow> format \<times> string" where
  "parse_format_suffix [] fmt expr = (fmt, expr)"
| "parse_format_suffix ((suffix, f) # rest) fmt expr =
     (if endswith expr suffix then (f, take (length expr - length suffix) expr)
      else parse_format_suffix rest fmt expr)"

text \<open>The frame a \<^verbatim>\<open>frameId\<close> stands for (\<^verbatim>\<open>var_refs.get(frame_id, None)\<close>); a handle of
  another kind of object counts as no frame.\<close>

definition frame_of_handle :: "int option \<Rightarrow> session \<Rightarrow> frame option" where
  "frame_of_handle frame_id s =
     (case frame_id of
        None \<Rightarrow> None
      | Some i \<Rightarrow> (case ht_get i (var_refs s) of Some (HFrame f) \<Rightarrow> Some f | _ \<Rightarrow> None))"

definition replace_newlines :: "string \<Rightarrow> string" where
  "replace_newlines m = concat (map (\<lambda>c. if c = CHR 0x0A then ''; '' else [c]) m)"

text \<open>\<^verbatim>\<open>evaluate_expr(args, expr)\<close> with \<^verbatim>\<open>args.get('frameId')\<close> and \<^verbatim>\<open>args.get('context')\<close>.
  (For a hover the source also silences \<^verbatim>\<open>sys.stderr\<close> during the evaluation; the model has
  no such stream.)\<close>

definition evaluate_expr_value :: "sbvalue \<Rightarrow> format \<Rightarrow> string \<Rightarrow> session \<Rightarrow> json outcome" where
  "evaluate_expr_value result fmt expr s =
     (let dtype = sv_type_name result;
          (handle, s1) = get_var_handle result (KName expr) None s;
          v = get_var_value_not_null result fmt (handle \<noteq> 0) s1
      in (Inr (JObj [(''result'', JStr v), (''type'', JStr dtype),
                     (''variablesReference'', JInt handle)]), s1))"

definition evaluate_expr :: "host \<Rightarrow> int option \<Rightarrow> string option \<Rightarrow> string \<Rightarrow> session \<Rightarrow> json outcome" where
  "evaluate_expr h frame_id ctx expr0 s =
     (let (fmt, expr) = parse_format_suffix format_codes (global_format s) expr0;
          frame = frame_of_handle frame_id s
      in case evaluate_expr_in_frame h expr frame s of
           (Inl e, s1) \<Rightarrow> (Inl e, s1)
         | (Inr (PySBError error_message), s1) \<Rightarrow>
             (if ctx = Some ''repl'' then (Inr JNone, console_err error_message s1)
              else (Inl (UserError (replace_newlines error_message) True), s1))
         | (Inr (PySBValue result), s1) \<Rightarrow> evaluate_expr_value result fmt expr s1
         | (Inr (PyWrapped result), s1) \<Rightarrow> evaluate_expr_value result fmt expr s1
         | (Inr (PyObject str_result), s1) \<Rightarrow>
             (Inr (JObj [(''result'', JStr str_result), (''variablesReference'', JInt 0)]), s1))"

text \<open>\<^verbatim>\<open>execute_command_in_frame\<close>: the command goes to the command interpreter (a command
  of several lines through a temporary file).\<close>

definition execute_command_in_frame :: "string \<Rightarrow> frame option \<Rightarrow> session \<Rightarrow> (bool \<times> string) \<times> session" where
  "execute_command_in_frame command frame s =
     (let s1 = (case frame of Some f \<Rightarrow> set_selected_frame f s | None \<Rightarrow> s)
      in (interp s1 command, s1\<lparr>issued := issued s1 @ [HandleCommand command]\<rparr>))"

text \<open>\<^verbatim>\<open>DEBUG_evaluate\<close> with \<^verbatim>\<open>args.get('frameId')\<close>, \<^verbatim>\<open>args.get('context')\<close> and
  \<^verbatim>\<open>args['expression']\<close>.\<close>

definition DEBUG_evaluate :: "host \<Rightarrow> int option \<Rightarrow> string option \<Rightarrow> string \<Rightarrow> session \<Rightarrow> json outcome" where
  "DEBUG_evaluate h frame_id ctx expr s =
     (if process s = None then
        (Inr (JObj [(''result'', JStr [])]),
         log_record LogError ''evaluate without a process'' [] s)
      else if ctx \<in> {Some ''watch'', Some ''hover'', None} then evaluate_expr h frame_id ctx expr s
      else if startswith expr ''?'' then evaluate_expr h frame_id ctx (drop 1 expr) s
      else
        (let ((succeeded, output), s1) =
               execute_command_in_frame expr (frame_of_handle frame_id s) s
         in (Inr (JObj [(''result'', JStr output)]), s1)))"

subsection \<open>Breakpoint registry: conditions\<close>

text \<open>One entry of \<^verbatim>\<open>args['breakpoints']\<close>: \<^verbatim>\<open>req['line']\<close>, \<^verbatim>\<open>req.get('condition')\<close>,
  \<^verbatim>\<open>req.get('hitCondition')\<close>, \<^verbatim>\<open>req.get('logMessage')\<close>.\<close>

record bp_request =
  req_line :: int
  req_condition :: "string option"
  req_hitCondition :: "string option"
  req_logMessage :: "string option"

text \<open>A method called on an \<^verbatim>\<open>SBBreakpoint\<close> handle changes the breakpoint the target holds
  under that id; on an invalid handle it changes nothing.\<close>

definition update_bp :: "int \<Rightarrow> (backend_bp \<Rightarrow> backend_bp) \<Rightarrow> session \<Rightarrow> session" where
  "update_bp i f s =
     (case target s of
        None \<Rightarrow> s
      | Some t \<Rightarrow>
          (case t_breakpoints t i of
             None \<Rightarrow> s
           | Some b \<Rightarrow> s\<lparr>target := Some (t\<lparr>t_breakpoints := (t_breakpoints t)(i \<mapsto> f b)\<rparr>)\<rparr>))"

definition could_not_set_condition :: "string \<Rightarrow> string \<Rightarrow> session \<Rightarrow> session" where
  "could_not_set_condition cond msg s =
     console_err (''Could not set breakpoint condition '' @ [CHR 0x22] @ cond @ [CHR 0x22]
                  @ '': '' @ msg) s"

text \<open>\<^verbatim>\<open>make_python_expression_bpcond\<close>: the condition is compiled as an expression and, if
  that is a syntax error, as a statement; the evaluator of a statement always answers
  false. (The evaluator also selects the hit frame in the backend; a closure of the model
  has no access to the session.)\<close>

definition make_python_expression_bpcond :: "host \<Rightarrow> string \<Rightarrow> session \<Rightarrow> bpcond option \<times> session" where
  "make_python_expression_bpcond h cond s =
     (let pp_cond = preprocess_python_expr h cond
      in case py_compile h pp_cond ModeEval of
           None \<Rightarrow> (Some (\<lambda>bp_loc frame. py_eval_cond h pp_cond ModeEval bp_loc frame), s)
         | Some (SyntaxError m) \<Rightarrow>
             (case py_compile h pp_cond ModeExec of
                None \<Rightarrow>
                  (Some (\<lambda>bp_loc frame.
                           case py_eval_cond h pp_cond ModeExec bp_loc frame of
                             Inl e \<Rightarrow> Inl e
                           | Inr r \<Rightarrow> Inr False), s)
              | Some (SyntaxError m') \<Rightarrow> (None, could_not_set_condition cond m' s)
              | Some (OtherCompileError m') \<Rightarrow> (None, could_not_set_condition cond m' s))
         | Some (OtherCompileError m) \<Rightarrow> (None, could_not_set_condition cond m s))"

definition make_simple_expression_bpcond :: "host \<Rightarrow> string \<Rightarrow> session \<Rightarrow> bpcond option \<times> session" where
  "make_simple_expression_bpcond h cond s =
     (let pp_cond = preprocess_simple_expr h cond
      in case py_compile h pp_cond ModeEval of
           None \<Rightarrow> (Some (\<lambda>bp_loc frame. py_eval_cond h pp_cond ModeEval bp_loc frame), s)
         | Some (SyntaxError m) \<Rightarrow> (None, could_not_set_condition cond m s)
         | Some (OtherCompileError m) \<Rightarrow> (None, could_not_set_condition cond m s))"

text \<open>Python's truth value of an optional string: \<open>None\<close> and the empty string are false.\<close>

definition truthy :: "string option \<Rightarrow> bool" where
  "truthy x = (case x of None \<Rightarrow> False | Some v \<Rightarrow> v \<noteq> [])"

text \<open>The part of \<^verbatim>\<open>set_bp_condition\<close> that handles \<^verbatim>\<open>req.get('condition')\<close>. \<open>bp_info\<close> is
  the object being changed; it is returned with the session.\<close>

definition set_bp_condition_cond ::
  "host \<Rightarrow> int \<Rightarrow> string option \<Rightarrow> BreakpointInfo \<Rightarrow> session \<Rightarrow>
   (error + unit) \<times> BreakpointInfo \<times> session" where
  "set_bp_condition_cond h bp cond0 bp_info s =
     (if \<not> truthy cond0 then (Inr (), bp_info, s)
      else
        (case get_expression_type (case cond0 of Some c \<Rightarrow> c | None \<Rightarrow> []) s of
           Inl e \<Rightarrow> (Inl e, bp_info, s)
         | Inr (ty, cond) \<Rightarrow>
             if ty = NATIVE then
               (Inr (), bp_info, update_bp bp (\<lambda>b. b\<lparr>bb_condition := Some cond\<rparr>) s)
             else
               (let (eval_condition, s1) =
                      (if ty = PYTHON then make_python_expression_bpcond h cond s
                       else make_simple_expression_bpcond h cond s)
                in case eval_condition of
                     Some f \<Rightarrow> (Inr (), bp_info\<lparr>condition := Some f\<rparr>, s1)
                   | None \<Rightarrow> (Inr (), bp_info, s1))))"

text \<open>The part that handles \<^verbatim>\<open>req.get('hitCondition')\<close>.\<close>

definition set_bp_condition_hit ::
  "host \<Rightarrow> int \<Rightarrow> string option \<Rightarrow> BreakpointInfo \<Rightarrow> session \<Rightarrow> BreakpointInfo \<times> session" where
  "set_bp_condition_hit h bp ignore_count_str bp_info s =
     (if \<not> truthy ignore_count_str then (bp_info, s)
      else
        (let str = (case ignore_count_str of Some c \<Rightarrow> c | None \<Rightarrow> [])
         in case py_int h str of
              Some n \<Rightarrow>
                (bp_info\<lparr>ignore_count := n\<rparr>, update_bp bp (\<lambda>b. b\<lparr>bb_ignore_count := n\<rparr>) s)
            | None \<Rightarrow>
                (bp_info, console_err (''Could not parse ignore count as integer: '' @ str) s)))"

definition store_info :: "int \<Rightarrow> BreakpointInfo \<Rightarrow> session \<Rightarrow> session" where
  "store_info i bp_info s = s\<lparr>breakpoints := (breakpoints s)(i \<mapsto> bp_info)\<rparr>"

text \<open>\<^verbatim>\<open>set_bp_condition(bp, req)\<close>: sets up the stopping condition of a breakpoint. \<open>bp\<close> is
  \<^verbatim>\<open>bp.GetID()\<close>.\<close>

definition set_bp_condition :: "host \<Rightarrow> int \<Rightarrow> bp_request \<Rightarrow> session \<Rightarrow> unit outcome" where
  "set_bp_condition h bp req s =
     (case breakpoints s bp of
        None \<Rightarrow> (Inl KeyError, s)
      | Some bp_info \<Rightarrow>
          (let (info1, s1) =
                 (if condition bp_info \<noteq> None \<or> ignore_count bp_info \<noteq> 0 then
                    (bp_info\<lparr>condition := None, ignore_count := 0\<rparr>,
                     update_bp bp (\<lambda>b. b\<lparr>bb_condition := None, bb_callback := Some []\<rparr>) s)
                  else (bp_info, s))
           in case set_bp_condition_cond h bp (req_condition req) info1 s1 of
                (Inl e, info2, s2) \<Rightarrow> (Inl e, store_info bp info2 s2)
              | (Inr u, info2, s2) \<Rightarrow>
                  (let (info3, s3) = set_bp_condition_hit h bp (req_hitCondition req) info2 s2;
                       info4 = info3\<lparr>log_message := req_logMessage req\<rparr>;
                       s4 = (if condition info4 \<noteq> None \<or> truthy (log_message info4)
                                \<or> ignore_count info4 \<noteq> 0
                             then update_bp bp
                                    (\<lambda>b. b\<lparr>bb_callback :=
                                               Some ''adapter.debugsession.on_breakpoint_hit''\<rparr>) s3
                             else s3)
                   in (Inr (), store_info bp info4 s4))))"

subsection \<open>Breakpoint registry: reconciliation of line breakpoints\<close>

text \<open>\<^verbatim>\<open>args['source']\<close>: \<^verbatim>\<open>source.get('sourceReference')\<close>, \<^verbatim>\<open>source.get('path')\<close>,
  \<^verbatim>\<open>source.get('adapterData')\<close>.\<close>

record source_arg =
  src_sourceReference :: "int option"
  src_path :: "string option"
  src_adapterData :: "adapter_data_t option"

datatype resp_source = SourceFile "string option" string | SourceArg source_arg

text \<open>A breakpoint of the response: \<^verbatim>\<open>id\<close>, and \<^verbatim>\<open>verified\<close>, \<^verbatim>\<open>source\<close>, \<^verbatim>\<open>line\<close> where the
  dict has the key.\<close>

record bp_resp =
  resp_id :: int
  resp_verified :: "bool option"
  resp_source :: "resp_source option"
  resp_line :: "int option"

definition new_backend_bp :: "bp_location list \<Rightarrow> int option \<Rightarrow> backend_bp" where
  "new_backend_bp locs addr =
     \<lparr>bb_condition = None, bb_ignore_count = 0, bb_callback = None, bb_locations = locs,
      bb_address = addr\<rparr>"

definition BreakpointCreateByLocation :: "string \<Rightarrow> int \<Rightarrow> target \<Rightarrow> int \<times> target" where
  "BreakpointCreateByLocation file line t =
     (t_next_id t,
      t\<lparr>t_breakpoints := (t_breakpoints t)(t_next_id t \<mapsto> new_backend_bp (t_resolve t file line) None),
        t_next_id := t_next_id t + 1\<rparr>)"

definition BreakpointCreateByAddress :: "int \<Rightarrow> target \<Rightarrow> int \<times> target" where
  "BreakpointCreateByAddress addr t =
     (t_next_id t,
      t\<lparr>t_breakpoints := (t_breakpoints t)(t_next_id t \<mapsto> new_backend_bp [] (Some addr)),
        t_next_id := t_next_id t + 1\<rparr>)"

definition BreakpointDelete :: "int \<Rightarrow> target \<Rightarrow> target" where
  "BreakpointDelete i t = t\<lparr>t_breakpoints := (t_breakpoints t)(i := None)\<rparr>"

text \<open>\<^verbatim>\<open>FindBreakpointByID(bp_id).GetID()\<close>: the id, or \<^verbatim>\<open>LLDB_INVALID_BREAK_ID\<close> (zero) when the
  target has no such breakpoint.\<close>

definition FindBreakpointByID :: "target \<Rightarrow> int \<Rightarrow> int" where
  "FindBreakpointByID t i = (if t_breakpoints t i = None then 0 else i)"

definition set_bp_events :: "bool \<Rightarrow> session \<Rightarrow> session" where
  "set_bp_events on s =
     (case target s of None \<Rightarrow> s | Some t \<Rightarrow> s\<lparr>target := Some (t\<lparr>t_bp_events := on\<rparr>)\<rparr>)"

text \<open>The dict \<^verbatim>\<open>file_bps\<close> of a file lives in \<^verbatim>\<open>line_breakpoints\<close>: an association list
  from line to breakpoint id, in the order the keys were inserted.\<close>

definition file_bps_of :: "file_id \<Rightarrow> session \<Rightarrow> (int \<times> int) list" where
  "file_bps_of fid s = (case line_breakpoints s fid of None \<Rightarrow> [] | Some d \<Rightarrow> d)"

definition set_file_bps :: "file_id \<Rightarrow> (int \<times> int) list \<Rightarrow> session \<Rightarrow> session" where
  "set_file_bps fid d s = s\<lparr>line_breakpoints := (line_breakpoints s)(fid \<mapsto> d)\<rparr>"

text \<open>The loop "clear existing breakpoints that were removed" of \<^verbatim>\<open>DEBUG_setBreakpoints\<close>,
  over \<^verbatim>\<open>list(file_bps.items())\<close>.\<close>

fun clear_removed :: "file_id \<Rightarrow> int list \<Rightarrow> (int \<times> int) list \<Rightarrow> session \<Rightarrow> unit outcome" where
  "clear_removed fid req_bp_lines [] s = (Inr (), s)"
| "clear_removed fid req_bp_lines ((line, bp_id) # rest) s =
     (if line \<notin> set req_bp_lines then
        (case target s of
           None \<Rightarrow> (Inl AttributeError, s)
         | Some t \<Rightarrow>
             (let s1 = s\<lparr>target := Some (BreakpointDelete bp_id t)\<rparr>
              in if map_of (file_bps_of fid s1) line = None then (Inl KeyError, s1)
                 else
                   (let s2 = set_file_bps fid (AList.delete line (file_bps_of fid s1)) s1
                    in if breakpoints s2 bp_id = None then (Inl KeyError, s2)
                       else clear_removed fid req_bp_lines rest
                              (s2\<lparr>breakpoints := (breakpoints s2)(bp_id := None)\<rparr>))))
      else clear_removed fid req_bp_lines rest s)"

definition same_path :: "host \<Rightarrow> string \<Rightarrow> string \<Rightarrow> bool" where
  "same_path h path1 path2 \<longleftrightarrow>
     os_normcase h (os_normpath h path1) = os_normcase h (os_normpath h path2)"

text \<open>\<^verbatim>\<open>loc.SetEnabled(False)\<close> on the location at index \<open>i\<close>.\<close>

definition disable_location :: "nat \<Rightarrow> backend_bp \<Rightarrow> backend_bp" where
  "disable_location i b =
     b\<lparr>bb_locations :=
         take i (bb_locations b) @
         (case drop i (bb_locations b) of [] \<Rightarrow> [] | l # ls \<Rightarrow> l\<lparr>loc_enabled := False\<rparr> # ls)\<rparr>"

text \<open>The loop \<^verbatim>\<open>for loc in bp\<close> of \<^verbatim>\<open>set_source_breakpoints\<close>: locations whose file is not
  the requested one are disabled, a location that matches verifies the breakpoint.\<close>

fun check_locations ::
  "host \<Rightarrow> string \<Rightarrow> int \<Rightarrow> nat \<Rightarrow> bp_location list \<Rightarrow> bp_resp \<Rightarrow> session \<Rightarrow> bp_resp outcome" where
  "check_locations h file_path bp i [] bp_resp s = (Inr bp_resp, s)"
| "check_locations h file_path bp i (loc # locs) bp_resp s =
     (let fs = loc_filespec loc
      in case map_filespec_to_local h fs s of
           (Inl e, s1) \<Rightarrow> (Inl e, s1)
         | (Inr None, s1) \<Rightarrow>
             check_locations h file_path bp (Suc i) locs bp_resp (update_bp bp (disable_location i) s1)
         | (Inr (Some bp_local_path), s1) \<Rightarrow>
             (if \<not> same_path h bp_local_path file_path then
                check_locations h file_path bp (Suc i) locs bp_resp
                  (update_bp bp (disable_location i) s1)
              else
                check_locations h file_path bp (Suc i) locs
                  (bp_resp\<lparr>resp_source := Some (SourceFile (fs_filename fs) bp_local_path),
                           resp_line := Some (loc_line loc),
                           resp_verified := Some True\<rparr>) s1))"

text \<open>The branch "new breakpoint" of \<^verbatim>\<open>set_source_breakpoints\<close>: the breakpoint is set by
  file name and line only, then its locations are checked against the full path.\<close>

definition new_source_breakpoint_at ::
  "host \<Rightarrow> string \<Rightarrow> string \<Rightarrow> int \<Rightarrow> target \<Rightarrow> session \<Rightarrow> (int \<times> int \<times> bp_resp) outcome" where
  "new_source_breakpoint_at h file_path file_name line t s =
     (let (bp_id, t') = BreakpointCreateByLocation file_name line t;
          s1 = s\<lparr>target := Some t'\<rparr>;
          s2 = store_info bp_id (new_BreakpointInfo bp_id) s1;
          bp_resp = \<lparr>resp_id = bp_id, resp_verified = None, resp_source = None, resp_line = None\<rparr>
      in case check_locations h file_path bp_id 0 (t_resolve t file_name line) bp_resp s2 of
           (Inl e, s3) \<Rightarrow> (Inl e, s3)
         | (Inr bp_resp', s3) \<Rightarrow> (Inr (bp_id, bp_id, bp_resp'), s3))"

text \<open>The two branches of the loop body of \<^verbatim>\<open>set_source_breakpoints\<close>: the breakpoint
  handle (its \<^verbatim>\<open>GetID()\<close>), the id entered in \<^verbatim>\<open>file_bps\<close>, and the response.\<close>

definition source_breakpoint ::
  "host \<Rightarrow> file_id \<Rightarrow> string \<Rightarrow> string \<Rightarrow> int \<Rightarrow> session \<Rightarrow> (int \<times> int \<times> bp_resp) outcome" where
  "source_breakpoint h fid file_path file_name line s =
     (case target s of
        None \<Rightarrow> (Inl AttributeError, s)
      | Some t \<Rightarrow>
          (case map_of (file_bps_of fid s) line of
             Some bp_id \<Rightarrow>
               if bp_id \<noteq> 0 then
                 (Inr (FindBreakpointByID t bp_id, bp_id,
                       \<lparr>resp_id = bp_id, resp_verified = Some True, resp_source = None,
                        resp_line = None\<rparr>), s)
               else new_source_breakpoint_at h file_path file_name line t s
           | None \<Rightarrow> new_source_breakpoint_at h file_path file_name line t s))"

fun set_source_breakpoints_loop ::
  "host \<Rightarrow> file_id \<Rightarrow> string \<Rightarrow> string \<Rightarrow> bp_request list \<Rightarrow> bp_resp list \<Rightarrow> session \<Rightarrow>
   bp_resp list outcome" where
  "set_source_breakpoints_loop h fid file_path file_name [] result s = (Inr result, s)"
| "set_source_breakpoints_loop h fid file_path file_name (req # req_bps) result s =
     (let line = req_line req
      in case source_breakpoint h fid file_path file_name line s of
           (Inl e, s1) \<Rightarrow> (Inl e, s1)
         | (Inr (bp, bp_id, bp_resp), s1) \<Rightarrow>
             (case set_bp_condition h bp req s1 of
                (Inl e, s2) \<Rightarrow> (Inl e, s2)
              | (Inr u, s2) \<Rightarrow>
                  set_source_breakpoints_loop h fid file_path file_name req_bps (result @ [bp_resp])
                    (set_file_bps fid (AList.update line bp_id (file_bps_of fid s2)) s2)))"

text \<open>\<^verbatim>\<open>set_source_breakpoints(file_bps, req_bps, file_path)\<close>; \<open>fid\<close> names the dict
  \<^verbatim>\<open>file_bps\<close>.\<close>

definition set_source_breakpoints ::
  "host \<Rightarrow> file_id \<Rightarrow> bp_request list \<Rightarrow> string \<Rightarrow> session \<Rightarrow> bp_resp list outcome" where
  "set_source_breakpoints h fid req_bps file_path s =
     set_source_breakpoints_loop h fid file_path (os_basename h file_path) req_bps [] s"

text \<open>The loop body's branches in \<^verbatim>\<open>set_dasm_breakpoints\<close>.\<close>

definition dasm_breakpoint ::
  "file_id \<Rightarrow> (int \<Rightarrow> error + int) \<Rightarrow> source_arg \<Rightarrow> adapter_data_t option \<Rightarrow> bool \<Rightarrow> int \<Rightarrow>
   session \<Rightarrow> (int \<times> int \<times> bp_resp) outcome" where
  "dasm_breakpoint fid addr_from_line source adapter_data' verified line s =
     (case target s of
        None \<Rightarrow> (Inl AttributeError, s)
      | Some t \<Rightarrow>
          (let existing = (case map_of (file_bps_of fid s) line of
                             Some bp_id \<Rightarrow> (if bp_id \<noteq> 0 then Some bp_id else None)
                           | None \<Rightarrow> None)
           in case existing of
                Some bp_id \<Rightarrow>
                  (Inr (FindBreakpointByID t bp_id, bp_id,
                        \<lparr>resp_id = bp_id, resp_verified = Some verified,
                         resp_source = Some (SourceArg source), resp_line = None\<rparr>), s)
              | None \<Rightarrow>
                  (case addr_from_line line of
                     Inl e \<Rightarrow> (Inl e, s)
                   | Inr addr \<Rightarrow>
                       (let (bp_id, t') = BreakpointCreateByAddress addr t;
                            bp_info = (new_BreakpointInfo bp_id)
                                        \<lparr>address := Some addr, adapter_data := adapter_data'\<rparr>;
                            s1 = store_info bp_id bp_info (s\<lparr>target := Some t'\<rparr>)
                        in (Inr (bp_id, bp_id,
                                 \<lparr>resp_id = bp_id, resp_verified = Some verified,
                                  resp_source = Some (SourceArg source),
                                  resp_line = Some line\<rparr>), s1)))))"

fun set_dasm_breakpoints ::
  "host \<Rightarrow> file_id \<Rightarrow> bp_request list \<Rightarrow> (int \<Rightarrow> error + int) \<Rightarrow> source_arg \<Rightarrow>
   adapter_data_t option \<Rightarrow> bool \<Rightarrow> bp_resp list \<Rightarrow> session \<Rightarrow> bp_resp list outcome" where
  "set_dasm_breakpoints h fid [] addr_from_line source adapter_data' verified result s =
     (Inr result, s)"
| "set_dasm_breakpoints h fid (req # req_bps) addr_from_line source adapter_data' verified result s =
     (let line = req_line req
      in case dasm_breakpoint fid addr_from_line source adapter_data' verified line s of
           (Inl e, s1) \<Rightarrow> (Inl e, s1)
         | (Inr (bp, bp_id, bp_resp), s1) \<Rightarrow>
             (case set_bp_condition h bp req s1 of
                (Inl e, s2) \<Rightarrow> (Inl e, s2)
              | (Inr u, s2) \<Rightarrow>
                  set_dasm_breakpoints h fid req_bps addr_from_line source adapter_data' verified
                    (result @ [bp_resp])
                    (set_file_bps fid (AList.update line bp_id (file_bps_of fid s2)) s2)))"

text \<open>The \<^verbatim>\<open>try\<close> block of \<^verbatim>\<open>DEBUG_setBreakpoints\<close> after \<^verbatim>\<open>disable_bp_events()\<close>. The keys of
  \<^verbatim>\<open>adapterData['lines']\<close> are the line numbers (the source writes them as strings).\<close>

definition setBreakpoints_body ::
  "host \<Rightarrow> source_arg \<Rightarrow> bp_request list \<Rightarrow> session \<Rightarrow> bp_resp list outcome" where
  "setBreakpoints_body h source req_bps s =
     (let req_bp_lines = map req_line req_bps;
          dasm = (case src_sourceReference source of
                    None \<Rightarrow> None
                  | Some r \<Rightarrow> if r = 0 then None else disassembly s r)
      in case dasm of
           Some d \<Rightarrow>
             (let fid = SourceRef (dasm_source_ref d);
                  line_addresses =
                    (\<lambda>line. if line \<in> set req_bp_lines
                             then Some (dasm_address_by_line_num d line) else None);
                  source' = source\<lparr>src_adapterData :=
                              Some \<lparr>ad_start = dasm_start_address d, ad_end = dasm_end_address d,
                                    ad_lines = line_addresses\<rparr>\<rparr>;
                  s1 = set_file_bps fid (file_bps_of fid s) s
              in case clear_removed fid req_bp_lines (file_bps_of fid s1) s1 of
                   (Inl e, s2) \<Rightarrow> (Inl e, s2)
                 | (Inr u, s2) \<Rightarrow>
                     set_dasm_breakpoints h fid req_bps
                       (\<lambda>line. Inr (dasm_address_by_line_num d line)) source' None True [] s2)
         | None \<Rightarrow>
             (case src_path source of
                None \<Rightarrow> (Inl TypeError, s)
              | Some path \<Rightarrow>
                  (let adapter_data' = src_adapterData source;
                       file_path = os_normcase h path;
                       fid = FilePath file_path;
                       s1 = set_file_bps fid (file_bps_of fid s) s
                   in case clear_removed fid req_bp_lines (file_bps_of fid s1) s1 of
                        (Inl e, s2) \<Rightarrow> (Inl e, s2)
                      | (Inr u, s2) \<Rightarrow>
                          (case adapter_data' of
                             Some ad \<Rightarrow>
                               set_dasm_breakpoints h fid req_bps
                                 (\<lambda>line. case ad_lines ad line of
                                            None \<Rightarrow> Inl KeyError
                                          | Some a \<Rightarrow> Inr a)
                                 source adapter_data' False [] s2
                           | None \<Rightarrow> set_source_breakpoints h fid req_bps file_path s2))))"

text \<open>\<^verbatim>\<open>DEBUG_setBreakpoints(args)\<close> with \<^verbatim>\<open>args['source']\<close> and \<^verbatim>\<open>args['breakpoints']\<close>:
  \<open>None\<close> under \<^verbatim>\<open>noDebug\<close>, else the breakpoints of the response. Breakpoint events are
  switched off around the reconciliation and on again in the \<^verbatim>\<open>finally\<close> clause.\<close>

definition DEBUG_setBreakpoints ::
  "host \<Rightarrow> source_arg \<Rightarrow> bp_request list \<Rightarrow> session \<Rightarrow> bp_resp list option outcome" where
  "DEBUG_setBreakpoints h source req_bps s =
     (case launch_args s of
        None \<Rightarrow> (Inl AttributeError, s)
      | Some la \<Rightarrow>
          if la_noDebug la then (Inr None, s)
          else
            (case target s of
               None \<Rightarrow> (Inl AttributeError, s)
             | Some t \<Rightarrow>
                 (case setBreakpoints_body h source req_bps (set_bp_events False s) of
                    (Inl e, s1) \<Rightarrow> (Inl e, set_bp_events True s1)
                  | (Inr result, s1) \<Rightarrow> (Inr (Some result), set_bp_events True s1))))"

subsection \<open>Breakpoint registry: the hit callback\<close>

text \<open>\<^verbatim>\<open>replacer(match)\<close> of \<^verbatim>\<open>should_stop_on_bp\<close>: the text a placeholder's expression is
  replaced with.\<close>

definition replacer :: "host \<Rightarrow> frame \<Rightarrow> string \<Rightarrow> session \<Rightarrow> string outcome" where
  "replacer h frame expr s =
     (case evaluate_expr_in_frame h expr (Some frame) s of
        (Inl e, s1) \<Rightarrow> (Inl e, s1)
      | (Inr (PySBValue result), s1) \<Rightarrow>
          (Inr (get_var_value_not_null result (global_format s1) (sv_children result \<noteq> []) s1), s1)
      | (Inr (PyWrapped result), s1) \<Rightarrow>
          (Inr (get_var_value_not_null result (global_format s1) (sv_children result \<noteq> []) s1), s1)
      | (Inr (PySBError msg), s1) \<Rightarrow> (Inr (sberror_str h msg), s1)
      | (Inr (PyObject str_result), s1) \<Rightarrow> (Inr str_result, s1))"

text \<open>\<^verbatim>\<open>substitution_regex.sub(replacer, log_message)\<close> over the pieces of the message: text
  between matches is kept, each match is replaced; an exception of the replacer ends the
  substitution.\<close>

fun substitute :: "host \<Rightarrow> frame \<Rightarrow> segment list \<Rightarrow> session \<Rightarrow> string outcome" where
  "substitute h frame [] s = (Inr [], s)"
| "substitute h frame (Literal txt # rest) s =
     (case substitute h frame rest s of
        (Inl e, s1) \<Rightarrow> (Inl e, s1)
      | (Inr m, s1) \<Rightarrow> (Inr (txt @ m), s1))"
| "substitute h frame (Placeholder expr # rest) s =
     (case replacer h frame expr s of
        (Inl e, s1) \<Rightarrow> (Inl e, s1)
      | (Inr v, s1) \<Rightarrow>
          (case substitute h frame rest s1 of
             (Inl e, s2) \<Rightarrow> (Inl e, s2)
           | (Inr m, s2) \<Rightarrow> (Inr (v @ m), s2)))"

text \<open>"Reset ignore count after each stop": the first statement of \<^verbatim>\<open>should_stop_on_bp\<close>
  once the breakpoint is known.\<close>

definition reset_ignore_count :: "int \<Rightarrow> BreakpointInfo \<Rightarrow> session \<Rightarrow> session" where
  "reset_ignore_count bp bp_info s =
     (if ignore_count bp_info \<noteq> 0
      then update_bp bp (\<lambda>b. b\<lparr>bb_ignore_count := ignore_count bp_info\<rparr>) s
      else s)"

text \<open>\<^verbatim>\<open>should_stop_on_bp(bp_loc, frame, internal_dict)\<close>: the answer of the hit callback,
  true for "stop".\<close>

definition should_stop_on_bp :: "host \<Rightarrow> bp_loc \<Rightarrow> frame \<Rightarrow> session \<Rightarrow> bool \<times> session" where
  "should_stop_on_bp h bp_loc frame s =
     (let bp = bl_breakpoint bp_loc
      in case breakpoints s bp of
           None \<Rightarrow> (True, s)
         | Some bp_info \<Rightarrow>
             (let s1 = reset_ignore_count bp bp_info s
              in case (case condition bp_info of
                         None \<Rightarrow> Inr True
                       | Some cond \<Rightarrow> cond bp_loc frame) of
                   Inl e \<Rightarrow>
                     (True,
                      console_err (''Could not evaluate breakpoint condition: '' @ format_exc h e) s1)
                 | Inr False \<Rightarrow> (False, s1)
                 | Inr True \<Rightarrow>
                     (if truthy (log_message bp_info) then
                        (case substitute h frame
                                (split_log_message h
                                   (case log_message bp_info of Some m \<Rightarrow> m | None \<Rightarrow> [])) s1 of
                           (Inr message, s2) \<Rightarrow> (False, console_msg message JNone s2)
                         | (Inl e, s2) \<Rightarrow>
                             (True,
                              console_err
                                (''Could not evaluate breakpoint log message: '' @ format_exc h e) s2))
                      else (True, s1))))"

subsection \<open>Variables\<close>

text \<open>\<^verbatim>\<open>compose_eval_name(container, var_name)\<close>.\<close>

definition compose_eval_name :: "host \<Rightarrow> string option \<Rightarrow> string \<Rightarrow> string" where
  "compose_eval_name h container var_name =
     (case container of
        None \<Rightarrow> escape_variable_name h var_name
      | Some c \<Rightarrow>
          if startswith var_name ''['' then c @ var_name
          else c @ ''.'' @ escape_variable_name h var_name)"

text \<open>Reading a local variable of the running function: one that no statement has assigned
  yet raises \<^verbatim>\<open>UnboundLocalError\<close>.\<close>

definition read_local :: "'a option \<Rightarrow> error + 'a" where
  "read_local x = (case x of None \<Rightarrow> Inl UnboundLocalError | Some v \<Rightarrow> Inr v)"

text \<open>One variable of the response.\<close>

record variable =
  var_name :: string
  var_value :: string
  var_type :: "string option"
  var_variablesReference :: int
  var_evaluateName :: "string option"

text \<open>The loop \<^verbatim>\<open>for var in vars_iter\<close> of \<^verbatim>\<open>DEBUG_variables\<close>. \<open>variables\<close> is the ordered
  dict: a variable that shadows an earlier one of the same name replaces it and moves to
  the end.\<close>

fun variables_loop ::
  "host \<Rightarrow> int \<Rightarrow> string option \<Rightarrow> sbvalue list \<Rightarrow> (string \<times> variable) list \<Rightarrow> session \<Rightarrow>
   (string \<times> variable) list \<times> session" where
  "variables_loop h container_handle container_name [] variables s = (variables, s)"
| "variables_loop h container_handle container_name (var # vars) variables s =
     (case sv_name var of
        None \<Rightarrow> variables_loop h container_handle container_name vars variables s
      | Some name \<Rightarrow>
          (let dtype = sv_type_name var;
               (handle, s1) = get_var_handle var (KName name) (Some container_handle) s;
               v = get_var_value_not_null var (global_format s1) (handle \<noteq> 0) s1;
               variable = \<lparr>var_name = name, var_value = v, var_type = Some dtype,
                           var_variablesReference = handle,
                           var_evaluateName = Some (compose_eval_name h container_name name)\<rparr>
           in variables_loop h container_handle container_name vars
                (AList.delete name variables @ [(name, variable)]) s1))"

text \<open>The path segments after the frame and the scope, folded into the name of the
  container by \<^verbatim>\<open>compose_eval_name\<close>.\<close>

fun container_eval_name :: "host \<Rightarrow> string option \<Rightarrow> hkey list \<Rightarrow> error + string option" where
  "container_eval_name h container_name [] = Inr container_name"
| "container_eval_name h container_name (KName segment # rest) =
     container_eval_name h (Some (compose_eval_name h container_name segment)) rest"
| "container_eval_name h container_name (KFrame tid i # rest) = Inl AttributeError"

text \<open>The first part of \<^verbatim>\<open>DEBUG_variables\<close>: what the chain of \<^verbatim>\<open>isinstance\<close> tests leaves
  in \<^verbatim>\<open>vars_iter\<close>, \<^verbatim>\<open>container_name\<close> and \<^verbatim>\<open>variables\<close>. The local \<^verbatim>\<open>var\<close> is first assigned by
  the loop that follows this part; in the branch for a locals scope it is read before.\<close>

definition variables_of_container ::
  "host \<Rightarrow> int \<Rightarrow> hobject \<Rightarrow> hkey list \<Rightarrow> session \<Rightarrow>
   (sbvalue list option \<times> string option \<times> (string \<times> variable) list) outcome" where
  "variables_of_container h container_handle container container_vpath s =
     (let var = (None :: sbvalue option)
      in case container of
           LocalsScope frame \<Rightarrow>
             (let vars_iter = fr_variables frame;
                  ret_val = (case process s of
                               None \<Rightarrow> invalid_sbvalue
                             | Some p \<Rightarrow> th_stop_return_value (GetThreadByID p (fr_thread_id frame)))
              in if sv_is_valid ret_val then
                   (let name = ''[return value]''
                    in case read_local var of
                         Inl e \<Rightarrow> (Inl e, s)
                       | Inr var' \<Rightarrow>
                           (let dtype = sv_type_name var';
                                (handle, s1) =
                                   get_var_handle var' (KName name) (Some container_handle) s;
                                v = get_var_value_not_null ret_val (global_format s1)
                                      (handle \<noteq> 0) s1;
                                variable = \<lparr>var_name = name, var_value = v,
                                            var_type = Some dtype,
                                            var_variablesReference = handle,
                                            var_evaluateName = None\<rparr>
                            in (Inr (Some vars_iter, None, [(name, variable)]), s1)))
                 else (Inr (Some vars_iter, None, []), s))
         | StaticsScope frame \<Rightarrow>
             (Inr (Some (filter (\<lambda>v. sv_value_type v = eValueTypeVariableStatic)
                           (fr_statics_globals frame)), None, []), s)
         | GlobalsScope frame \<Rightarrow>
             (Inr (Some (filter (\<lambda>v. sv_value_type v \<noteq> eValueTypeVariableStatic)
                           (fr_statics_globals frame)), None, []), s)
         | RegistersScope frame \<Rightarrow> (Inr (Some (fr_registers frame), None, []), s)
         | HValue c \<Rightarrow>
             (if sv_value_type c \<noteq> eValueTypeRegisterSet then
                (case container_eval_name h None (drop 2 container_vpath) of
                   Inl e \<Rightarrow> (Inl e, s)
                 | Inr container_name \<Rightarrow>
                     (Inr (Some (take 10000 (sv_children c)), container_name, []), s))
              else (Inr (Some (take 10000 (sv_children c)), None, []), s))
         | HFrame frame \<Rightarrow> (Inr (None, None, []), s))"

text \<open>\<^verbatim>\<open>DEBUG_variables(args)\<close> with \<^verbatim>\<open>args['variablesReference']\<close>: \<open>None\<close> for a reference
  that is not known, else the variables of the response.\<close>

definition DEBUG_variables :: "host \<Rightarrow> int \<Rightarrow> session \<Rightarrow> variable list option outcome" where
  "DEBUG_variables h container_handle s =
     (case ht_get_vpath container_handle (var_refs s) of
        None \<Rightarrow>
          (Inr None,
           log_record LogError ''Invalid variables reference: %d'' [JInt container_handle] s)
      | Some (container, container_vpath) \<Rightarrow>
          (case variables_of_container h container_handle container container_vpath s of
             (Inl e, s1) \<Rightarrow> (Inl e, s1)
           | (Inr (vars_iter0, container_name, variables0), s1) \<Rightarrow>
               (case read_local vars_iter0 of
                  Inl e \<Rightarrow> (Inl e, s1)
                | Inr vars_iter \<Rightarrow>
                    (let (variables1, s2) =
                           variables_loop h container_handle container_name vars_iter variables0 s1;
                         variables = map snd variables1
                     in case container of
                          HValue c \<Rightarrow>
                            (if sv_is_synthetic c then
                               (let raw = (case sv_non_synthetic c of
                                             Some r \<Rightarrow> r
                                           | None \<Rightarrow> invalid_sbvalue);
                                    (handle, t) = ht_create (HValue raw) (KName ''[raw]'')
                                                    (Some container_handle) (var_refs s2);
                                    variable = \<lparr>var_name = ''[raw]'', var_value = sv_type_name c,
                                                var_type = None, var_variablesReference = handle,
                                                var_evaluateName = None\<rparr>
                                in (Inr (Some (variables @ [variable])), s2\<lparr>var_refs := t\<rparr>))
                             else (Inr (Some variables), s2))
                        | other \<Rightarrow> (Inr (Some variables), s2)))))"

subsection \<open>Example data\<close>

text \<open>A host, a stopped thread and a session on which the theorems below are instantiated.\<close>

definition example_value :: sbvalue where
  "example_value =
     SBValue (Some ''x'') ''int''
       (\<lambda>f. if f = eFormatHex then Some ''0xff'' else Some ''255'') (\<lambda>f. None)
       False 255 False eValueTypeOther True [] None"

definition example_filespec :: filespec where
  "example_filespec =
     \<lparr>fs_is_valid = True, fs_directory = Some ''/remote/src'', fs_filename = Some ''main.c'',
      fs_fullpath = Some ''/remote/src/main.c''\<rparr>"

definition example_frame :: frame where
  "example_frame =
     \<lparr>fr_thread_id = 7, fr_frame_id = 0, fr_line_filespec = example_filespec,
      fr_variables = [example_value], fr_statics_globals = [], fr_registers = []\<rparr>"

definition example_thread :: thread where
  "example_thread =
     \<lparr>th_is_valid = True, th_id = 7, th_stop_reason = eStopReasonBreakpoint, th_stop_data0 = 5,
      th_stop_description = ''breakpoint 5.1'', th_selected_frame = 0,
      th_frames = [example_frame], th_stop_return_value = example_value\<rparr>"

definition example_host :: host where
  "example_host =
     \<lparr>os_normpath = (\<lambda>p. p), os_normcase = (\<lambda>p. p),
      os_basename = (\<lambda>p. rev (takeWhile (\<lambda>c. c \<noteq> CHR ''/'') (rev p))),
      os_isfile = (\<lambda>p. True),
      fnmatch_translate = (\<lambda>p. p @ CHR 0x5C # ''Z(?ms)''),
      re_compile = (\<lambda>r p. None),
      py_int = (\<lambda>t. if t = ''3'' then Some 3 else None),
      py_str = (\<lambda>e. ''error''),
      sberror_str = (\<lambda>m. ''error: '' @ m),
      format_exc = (\<lambda>e. ''Traceback (most recent call last)''),
      fmt_hex = (\<lambda>i. if i = 7 then ''7'' else ''0''),
      preprocess_python_expr = (\<lambda>e. e), preprocess_simple_expr = (\<lambda>e. e),
      py_compile = (\<lambda>src m. None),
      py_eval_cond = (\<lambda>src m bl fr. if src = ''fail'' then Inl (PyException ''NameError'') else Inr True),
      eval_native = (\<lambda>e fr. if e = ''x'' then Inr example_value else Inl ''undeclared identifier''),
      eval_python = (\<lambda>ty e fr. if e = ''str()'' then Inr (PyObject [])
                               else if e = ''255'' then Inr (PyObject ''255'')
                               else Inl (PyException ''NameError'')),
      split_log_message = (\<lambda>m. if m = ''{/py str()}'' then [Placeholder ''/py str()'']
                                else [Literal m]),
      escape_variable_name = (\<lambda>n. n)\<rparr>"

definition example_session :: session where
  "example_session =
     (init_session True)
       \<lparr>var_refs := \<lparr>ht_entries = [1 \<mapsto> (HFrame example_frame, KFrame 7 0, None),
                                   2 \<mapsto> (LocalsScope example_frame, KName ''[locs]'', Some 1)],
                     ht_next = 3\<rparr>,
        breakpoints := [1 \<mapsto> (new_BreakpointInfo 1)\<lparr>log_message := Some ''{/py str()}''\<rparr>,
                        5 \<mapsto> (new_BreakpointInfo 5)\<lparr>exception_bp := True\<rparr>],
        process := Some \<lparr>p_threads = [example_thread], p_selected = 7, p_continue_error = None\<rparr>,
        launch_args := Some \<lparr>la_noDebug = False, la_expressions = SIMPLE, la_sourceMap = []\<rparr>,
        global_format := eFormatDecimal\<rparr>"

definition example_source_map :: "(regex \<times> string option) list" where
  "example_source_map =
     [((\<lambda>p. if startswith p ''/remote/src'' then Some ''/remote/src'' else None), Some ''/home/me/src''),
      ((\<lambda>p. if startswith p ''/remote'' then Some ''/remote'' else None), None)]"

section \<open>Properties\<close>

subsection \<open>Request router\<close>

lemma send_request_fields:
  "request_seq (send_request command args cb s) = request_seq s + 1"
  "pending_requests (send_request command args cb s) = (pending_requests s)(request_seq s \<mapsto> cb)"
  "sent (send_request command args cb s) = sent s @ [Request (request_seq s) command args]"
  "completed (send_request command args cb s) = completed s"
  by (simp_all add: send_request_def send_message_def Let_def)

text \<open>Claim C8. A reverse request is registered under the current sequence number, which no
  pending request holds, and the counter increases. The response that carries this number
  calls the completion callback once, with the body on success and the message on failure,
  and removes the entry; the same response arriving again finds no entry, is logged and
  dropped, calls nothing and raises nothing. (The invariant assumed is the one
  \<^verbatim>\<open>send_request\<close> keeps: every pending key is below the counter.)\<close>

theorem reverse_request_completion:
  assumes inv: "\<forall>k \<in> dom (pending_requests s). k < request_seq s"
  shows "(let s1 = send_request command args cb s;
              rsp = InResponse (request_seq s) ok body msg;
              s2 = snd (handle_message h handlers disconnect rsp s1);
              s3 = snd (handle_message h handlers disconnect rsp s2)
          in request_seq s \<notin> dom (pending_requests s)
           \<and> request_seq s < request_seq s1
           \<and> pending_requests s1 = (pending_requests s)(request_seq s \<mapsto> cb)
           \<and> sent s1 = sent s @ [Request (request_seq s) command args]
           \<and> (\<forall>k \<in> dom (pending_requests s1). k < request_seq s1)
           \<and> fst (handle_message h handlers disconnect rsp s1) = Inr ()
           \<and> completed s2 = completed s @ [(cb, ok, if ok then body else msg)]
           \<and> pending_requests s2 = pending_requests s
           \<and> fst (handle_message h handlers disconnect rsp s2) = Inr ()
           \<and> completed s3 = completed s2
           \<and> pending_requests s3 = pending_requests s2
           \<and> sent s3 = sent s2
           \<and> logged s3 = logged s2 @
                [(LogError, ''Received response without pending request, seq=%d'',
                  [JInt (request_seq s)])])"
proof -
  have fresh: "pending_requests s (request_seq s) = None"
    using inv by (cases "pending_requests s (request_seq s)") (auto simp: dom_def)
  show ?thesis
    using fresh inv
    by (auto simp: Let_def send_request_def send_message_def handle_message_def
        call_on_complete_def log_record_def dom_def fun_upd_idem)
qed

theorem reverse_request_completion_witness:
  "completed (snd (handle_message example_host (\<lambda>c. None) (\<lambda>s. (Inr (), s))
                     (InResponse 1 True (JStr ''ok'') JNone)
                     (send_request ''runInTerminal'' [] (Callback 0) (init_session True))))
     = [(Callback 0, True, JStr ''ok'')]"
  using reverse_request_completion[of "init_session True" "''runInTerminal''" "[]" "Callback 0"
      True "JStr ''ok''" JNone example_host "\<lambda>c. None" "\<lambda>s. (Inr (), s)"]
  by (simp add: init_session_def Let_def)

subsection \<open>Source locator\<close>

lemma source_map_loop_skip:
  "\<forall>r \<in> set pre. fst r pn = None \<Longrightarrow>
   source_map_loop h (pre @ rest) path pn = source_map_loop h rest path pn"
  by (induction pre) (auto split: option.splits)

lemma source_map_loop_no_match:
  "\<forall>r \<in> set rules. fst r pn = None \<Longrightarrow> source_map_loop h rules path pn = Some path"
  by (induction rules) (auto split: option.splits)

text \<open>Claim C6. With the remap rules built and a file that has a full path, the uncached
  resolution matches the rules in order against the normalised, case-normalised path. The
  first rule that matches decides: with no local prefix the result is \<open>None\<close>, with a local
  prefix it is the normalised concatenation of the prefix and the path after the matched
  remote prefix. When no rule matches the normalised path is returned.\<close>

theorem source_map_first_match_wins:
  assumes sm: "source_map s = Some rules" and fp: "fs_fullpath fs = Some p"
  shows "(\<forall>pre rx lp post g.
            rules = pre @ (rx, lp) # post \<and> (\<forall>r \<in> set pre. fst r (os_normcase h (os_normpath h p)) = None)
              \<and> rx (os_normcase h (os_normpath h p)) = Some g \<longrightarrow>
            map_filespec_to_local_uncached h fs s =
              (Inr (case lp of
                      None \<Rightarrow> None
                    | Some l \<Rightarrow> Some (os_normpath h (l @ drop (length g) (os_normpath h p)))), s))
       \<and> ((\<forall>r \<in> set rules. fst r (os_normcase h (os_normpath h p)) = None) \<longrightarrow>
            map_filespec_to_local_uncached h fs s = (Inr (Some (os_normpath h p)), s))"
proof (intro conjI allI impI)
  fix pre rx lp post g
  assume a: "rules = pre @ (rx, lp) # post \<and>
             (\<forall>r \<in> set pre. fst r (os_normcase h (os_normpath h p)) = None) \<and>
             rx (os_normcase h (os_normpath h p)) = Some g"
  then have "source_map_loop h rules (os_normpath h p) (os_normcase h (os_normpath h p)) =
             source_map_loop h ((rx, lp) # post) (os_normpath h p) (os_normcase h (os_normpath h p))"
    by (simp add: source_map_loop_skip)
  with a show "map_filespec_to_local_uncached h fs s =
      (Inr (case lp of None \<Rightarrow> None
            | Some l \<Rightarrow> Some (os_normpath h (l @ drop (length g) (os_normpath h p)))), s)"
    using sm fp by (simp add: map_filespec_to_local_uncached_def Let_def split: option.splits)
next
  assume "\<forall>r \<in> set rules. fst r (os_normcase h (os_normpath h p)) = None"
  then show "map_filespec_to_local_uncached h fs s = (Inr (Some (os_normpath h p)), s)"
    using sm fp by (simp add: map_filespec_to_local_uncached_def Let_def source_map_loop_no_match)
qed

theorem source_map_first_match_wins_witness:
  "map_filespec_to_local_uncached example_host example_filespec
     (example_session\<lparr>source_map := Some example_source_map\<rparr>)
   = (Inr (Some ''/home/me/src/main.c''), example_session\<lparr>source_map := Some example_source_map\<rparr>)"
  using source_map_first_match_wins[of "example_session\<lparr>source_map := Some example_source_map\<rparr>"
      example_source_map example_filespec "''/remote/src/main.c''" example_host,
      THEN conjunct1, rule_format,
      of "[]" "\<lambda>p. if startswith p ''/remote/src'' then Some ''/remote/src'' else None"
         "Some ''/home/me/src''"
         "[((\<lambda>p. if startswith p ''/remote'' then Some ''/remote'' else None), None)]"
         "''/remote/src''"]
  by (simp add: example_source_map_def example_filespec_def example_host_def startswith_def)

text \<open>Claim C10, at the input where the code departs from it. For a valid file that is not
  in the cache, with \<^verbatim>\<open>suppress_missing_sources\<close> on and an uncached resolution of \<open>None\<close>,
  \<^verbatim>\<open>map_filespec_to_local\<close> raises \<^verbatim>\<open>TypeError\<close> (from \<^verbatim>\<open>os.path.isfile(None)\<close>) and caches
  nothing.\<close>

theorem map_filespec_to_local_suppressed_raises:
  assumes "fs_is_valid fs"
    and "filespec_cache s (fs_directory fs, fs_filename fs) = None"
    and "map_filespec_to_local_uncached h fs s = (Inr None, s1)"
    and "suppress_missing_sources s1"
  shows "fst (map_filespec_to_local h fs s) = Inl TypeError
       \<and> filespec_cache (snd (map_filespec_to_local h fs s)) = filespec_cache s1"
  using assms
  by (simp add: map_filespec_to_local_def Let_def os_path_isfile_def log_record_def)

theorem map_filespec_to_local_suppressed_raises_witness:
  "fst (map_filespec_to_local example_host example_filespec
          (example_session\<lparr>source_map := Some (tl example_source_map)\<rparr>)) = Inl TypeError"
  using map_filespec_to_local_suppressed_raises[of example_filespec
      "example_session\<lparr>source_map := Some (tl example_source_map)\<rparr>" example_host
      "example_session\<lparr>source_map := Some (tl example_source_map)\<rparr>"]
  by (simp add: example_source_map_def example_filespec_def example_host_def startswith_def
      example_session_def init_session_def map_filespec_to_local_uncached_def)

subsection \<open>Stop events\<close>

lemma fold_send_event_fields:
  "process (fold (\<lambda>x. send_event ev (f x)) xs s) = process s"
  "breakpoints (fold (\<lambda>x. send_event ev (f x)) xs s) = breakpoints s"
  by (induction xs arbitrary: s) (simp_all add: send_event_def send_message_def)

lemma update_threads_fields:
  assumes "process s = Some p"
  shows "fst (update_threads s) = Inr ()"
    and "process (snd (update_threads s)) = Some p"
    and "breakpoints (snd (update_threads s)) = breakpoints s"
  using assms by (simp_all add: update_threads_def Let_def fold_send_event_fields)

lemma find_stopped_thread_fields:
  "fst (find_stopped_thread p s) = fst (find_stopped_thread p s')"
  "breakpoints (snd (find_stopped_thread p s)) = breakpoints s"
  by (simp_all add: find_stopped_thread_def Let_def split: option.splits)

text \<open>Claim C3. When the thread found to have caused the stop reports a breakpoint hit, the
  last message sent is a \<^verbatim>\<open>stopped\<close> event whose reason is \<^verbatim>\<open>exception\<close> if the id of the hit
  breakpoint maps to a \<^verbatim>\<open>BreakpointInfo\<close> flagged \<^verbatim>\<open>exception_bp\<close>, and \<^verbatim>\<open>breakpoint\<close> if the
  flag is off or the id is unknown.\<close>

theorem breakpoint_stop_reason:
  assumes p: "process s = Some p"
    and t: "fst (find_stopped_thread p s) = Some t"
    and r: "th_stop_reason t = eStopReasonBreakpoint"
  shows "fst (notify_target_stopped s) = Inr ()
       \<and> (\<exists>body. last (sent (snd (notify_target_stopped s))) = Event ''stopped'' body
            \<and> map_of body ''reason'' =
                Some (JStr (if (\<exists>bi. breakpoints s (th_stop_data0 t) = Some bi \<and> exception_bp bi)
                            then ''exception'' else ''breakpoint'')))"
proof -
  obtain s1 where u: "update_threads s = (Inr (), s1)"
    using update_threads_fields(1)[OF p] by (cases "update_threads s") auto
  have p1: "process s1 = Some p" and b1: "breakpoints s1 = breakpoints s"
    using update_threads_fields(2,3)[OF p] u by simp_all
  obtain s2 where f: "find_stopped_thread p s1 = (Some t, s2)"
    using t find_stopped_thread_fields(1)[of p s1 s] by (cases "find_stopped_thread p s1") auto
  have b2: "breakpoints s2 = breakpoints s"
    using find_stopped_thread_fields(2)[of p s1] f b1 by simp
  show ?thesis
    using u p1 f r b2
    by (auto simp: notify_target_stopped_def Let_def send_event_def send_message_def
        split: option.splits)
qed

theorem breakpoint_stop_reason_witness:
  "\<exists>body. last (sent (snd (notify_target_stopped example_session))) = Event ''stopped'' body
        \<and> map_of body ''reason'' = Some (JStr ''exception'')"
proof -
  let ?p = "\<lparr>p_threads = [example_thread], p_selected = 7, p_continue_error = None\<rparr>"
  have p: "process example_session = Some ?p"
    by (simp add: example_session_def init_session_def)
  have t: "fst (find_stopped_thread ?p example_session) = Some example_thread"
    by (simp add: find_stopped_thread_def Let_def GetSelectedThread_def GetThreadByID_def
        has_stop_reason_def example_thread_def)
  have r: "th_stop_reason example_thread = eStopReasonBreakpoint"
    by (simp add: example_thread_def)
  have b: "\<exists>bi. breakpoints example_session (th_stop_data0 example_thread) = Some bi \<and> exception_bp bi"
    by (simp add: example_session_def init_session_def example_thread_def)
  from breakpoint_stop_reason[OF p t r] b show ?thesis
    by simp
qed

subsection \<open>The hit callback\<close>

lemma console_msg_sent:
  "output \<noteq> [] \<Longrightarrow>
   sent (console_msg output cat s) =
     sent s @ [Event ''output'' [(''category'', cat), (''output'', JStr (output @ [CHR 0x0A]))]]"
  by (simp add: console_msg_def send_event_def send_message_def)

text \<open>Claim C4, as amended. For a hit on a known breakpoint: a condition that evaluates false
  answers "do not stop" and sends nothing; otherwise a non-empty log message is
  substituted against the hit frame and the callback answers "do not stop", the formatted
  text being sent (with a newline) as console output unless it is empty, in which case
  nothing is sent; otherwise the callback answers "stop".\<close>

theorem stop_decision_order:
  assumes bi: "breakpoints s (bl_breakpoint bp_loc) = Some bi"
  shows "(\<forall>c. condition bi = Some c \<and> c bp_loc frame = Inr False \<longrightarrow>
            should_stop_on_bp h bp_loc frame s =
              (False, reset_ignore_count (bl_breakpoint bp_loc) bi s))
       \<and> (\<forall>m message s2.
            (condition bi = None \<or> (\<exists>c. condition bi = Some c \<and> c bp_loc frame = Inr True))
          \<and> log_message bi = Some m \<and> m \<noteq> []
          \<and> substitute h frame (split_log_message h m)
               (reset_ignore_count (bl_breakpoint bp_loc) bi s) = (Inr message, s2) \<longrightarrow>
            should_stop_on_bp h bp_loc frame s =
              (False,
               if message = [] then s2
               else send_event ''output''
                      [(''category'', JNone), (''output'', JStr (message @ [CHR 0x0A]))] s2))
       \<and> ((condition bi = None \<or> (\<exists>c. condition bi = Some c \<and> c bp_loc frame = Inr True))
          \<and> \<not> truthy (log_message bi) \<longrightarrow>
            should_stop_on_bp h bp_loc frame s =
              (True, reset_ignore_count (bl_breakpoint bp_loc) bi s))"
  using bi
  by (auto simp: should_stop_on_bp_def Let_def console_msg_def truthy_def
      split: option.splits sum.splits bool.splits)

theorem stop_decision_order_witness:
  "should_stop_on_bp example_host \<lparr>bl_breakpoint = 1, bl_hit_count = 1\<rparr> example_frame
     (example_session\<lparr>breakpoints := [1 \<mapsto> (new_BreakpointInfo 1)\<lparr>log_message := Some ''hit''\<rparr>]\<rparr>)
   = (False,
      send_event ''output'' [(''category'', JNone), (''output'', JStr (''hit'' @ [CHR 0x0A]))]
        (example_session\<lparr>breakpoints := [1 \<mapsto> (new_BreakpointInfo 1)\<lparr>log_message := Some ''hit''\<rparr>]\<rparr>))"
proof -
  let ?bi = "(new_BreakpointInfo 1)\<lparr>log_message := Some ''hit''\<rparr>"
  let ?s = "example_session\<lparr>breakpoints := [1 \<mapsto> ?bi]\<rparr>"
  let ?bl = "\<lparr>bl_breakpoint = 1, bl_hit_count = 1\<rparr>"
  have bi: "breakpoints ?s (bl_breakpoint ?bl) = Some ?bi"
    by simp
  have r: "reset_ignore_count (bl_breakpoint ?bl) ?bi ?s = ?s"
    by (simp add: reset_ignore_count_def new_BreakpointInfo_def)
  have c: "(condition ?bi = None \<or> (\<exists>c. condition ?bi = Some c \<and> c ?bl example_frame = Inr True))
         \<and> log_message ?bi = Some ''hit'' \<and> ''hit'' \<noteq> []
         \<and> substitute example_host example_frame (split_log_message example_host ''hit'')
              (reset_ignore_count (bl_breakpoint ?bl) ?bi ?s) = (Inr ''hit'', ?s)"
    unfolding r by (simp add: new_BreakpointInfo_def example_host_def)
  from stop_decision_order[OF bi, of example_frame example_host, THEN conjunct2, THEN conjunct1,
      rule_format, OF c]
  show ?thesis by simp
qed

text \<open>Claim C4 as stated fails: the breakpoint below has the log message \<^verbatim>\<open>{/py str()}\<close> and
  no condition, the substitution succeeds with the empty text, and the callback answers
  "do not stop" without any output being sent.\<close>

theorem stop_decision_order_counterexample:
  "truthy (log_message (the (breakpoints example_session 1)))
 \<and> condition (the (breakpoints example_session 1)) = None
 \<and> fst (substitute example_host example_frame
          (split_log_message example_host ''{/py str()}'') example_session) = Inr []
 \<and> fst (should_stop_on_bp example_host \<lparr>bl_breakpoint = 1, bl_hit_count = 1\<rparr> example_frame
          example_session) = False
 \<and> sent (snd (should_stop_on_bp example_host \<lparr>bl_breakpoint = 1, bl_hit_count = 1\<rparr>
                 example_frame example_session)) = sent example_session"
  by (simp add: example_session_def init_session_def new_BreakpointInfo_def truthy_def
      should_stop_on_bp_def reset_ignore_count_def example_host_def replacer_def
      evaluate_expr_in_frame_def get_expression_type_def startswith_def set_selected_frame_def
      console_msg_def Let_def)

text \<open>Claim C5. If the condition of the hit breakpoint raises, or the substitution of its log
  message raises, the callback answers "stop" and the last message sent is the error
  report on the console's error category.\<close>

theorem failing_evaluation_stops:
  assumes bi: "breakpoints s (bl_breakpoint bp_loc) = Some bi"
  shows "(\<forall>c e. condition bi = Some c \<and> c bp_loc frame = Inl e \<longrightarrow>
            fst (should_stop_on_bp h bp_loc frame s) = True
          \<and> last (sent (snd (should_stop_on_bp h bp_loc frame s))) =
              Event ''output''
                [(''category'', JStr ''stderr''),
                 (''output'', JStr (''Could not evaluate breakpoint condition: '' @ format_exc h e
                                    @ [CHR 0x0A]))])
       \<and> (\<forall>m e s2.
            (condition bi = None \<or> (\<exists>c. condition bi = Some c \<and> c bp_loc frame = Inr True))
          \<and> log_message bi = Some m \<and> m \<noteq> []
          \<and> substitute h frame (split_log_message h m)
               (reset_ignore_count (bl_breakpoint bp_loc) bi s) = (Inl e, s2) \<longrightarrow>
            fst (should_stop_on_bp h bp_loc frame s) = True
          \<and> last (sent (snd (should_stop_on_bp h bp_loc frame s))) =
              Event ''output''
                [(''category'', JStr ''stderr''),
                 (''output'', JStr (''Could not evaluate breakpoint log message: '' @ format_exc h e
                                    @ [CHR 0x0A]))])"
  using bi
  by (auto simp: should_stop_on_bp_def Let_def console_err_def console_msg_sent truthy_def
      split: option.splits sum.splits bool.splits)

theorem failing_evaluation_stops_witness:
  "fst (should_stop_on_bp example_host \<lparr>bl_breakpoint = 1, bl_hit_count = 1\<rparr> example_frame
          (example_session\<lparr>breakpoints :=
             [1 \<mapsto> (new_BreakpointInfo 1)\<lparr>condition := Some (\<lambda>bl fr. Inl (PyException ''NameError''))\<rparr>]\<rparr>))
   = True"
proof -
  let ?bi = "(new_BreakpointInfo 1)\<lparr>condition := Some (\<lambda>bl fr. Inl (PyException ''NameError''))\<rparr>"
  let ?s = "example_session\<lparr>breakpoints := [1 \<mapsto> ?bi]\<rparr>"
  let ?bl = "\<lparr>bl_breakpoint = 1, bl_hit_count = 1\<rparr>"
  have bi: "breakpoints ?s (bl_breakpoint ?bl) = Some ?bi"
    by simp
  have c: "condition ?bi = Some (\<lambda>bl fr. Inl (PyException ''NameError''))
         \<and> (\<lambda>bl fr. Inl (PyException ''NameError'')) ?bl example_frame = Inl (PyException ''NameError'')"
    by simp
  from failing_evaluation_stops[OF bi, of example_frame example_host, THEN conjunct1, rule_format, OF c]
  show ?thesis by simp
qed

subsection \<open>Format suffixes\<close>

lemma endswith_same_length:
  "length sfx = length suffix \<Longrightarrow> endswith (e @ suffix) sfx \<longleftrightarrow> sfx = suffix"
  by (auto simp: endswith_def)

lemma parse_format_suffix_table:
  "distinct (map fst tbl) \<Longrightarrow> \<forall>c \<in> set tbl. length (fst c) = length suffix \<Longrightarrow>
   (suffix, f) \<in> set tbl \<Longrightarrow> parse_format_suffix tbl g (e @ suffix) = (f, e)"
proof (induction tbl)
  case Nil
  then show ?case by simp
next
  case (Cons c tbl)
  obtain sfx f' where c: "c = (sfx, f')" by (cases c)
  show ?case
  proof (cases "sfx = suffix")
    case True
    with Cons.prems c have "f' = f"
      by (auto simp: image_iff)
    with True c Cons.prems show ?thesis
      by (simp add: endswith_same_length)
  next
    case False
    with Cons c show ?thesis
      by (simp add: endswith_same_length)
  qed
qed

lemma format_codes_distinct: "distinct (map fst format_codes)"
  by (simp add: format_codes_def)

lemma format_codes_length: "\<forall>c \<in> set format_codes. length (fst c) = 2"
  by (simp add: format_codes_def)

lemma parse_format_suffix_strip:
  assumes "(suffix, f) \<in> set format_codes"
  shows "parse_format_suffix format_codes g (expr @ suffix) = (f, expr)"
proof -
  have "length suffix = 2"
    using assms format_codes_length by fastforce
  then show ?thesis
    using parse_format_suffix_table[OF format_codes_distinct _ assms] format_codes_length
    by simp
qed

lemma parse_format_suffix_no_match:
  "\<forall>c \<in> set tbl. \<not> endswith expr (fst c) \<Longrightarrow> parse_format_suffix tbl g expr = (g, expr)"
  by (induction tbl) auto

lemma get_var_handle_global_format:
  "global_format (snd (get_var_handle v k p s)) = global_format s"
  "deref_pointers (snd (get_var_handle v k p s)) = deref_pointers s"
  by (simp_all add: get_var_handle_def Let_def split: prod.splits)

lemma evaluate_expr_in_frame_global_format:
  "global_format (snd (evaluate_expr_in_frame h e fr s)) = global_format s"
  by (auto simp: evaluate_expr_in_frame_def Let_def set_selected_frame_def log_record_def
      split: sum.splits option.splits prod.splits)

lemma evaluate_expr_value_global_format:
  "global_format (snd (evaluate_expr_value v f e s)) = global_format s"
  by (simp add: evaluate_expr_value_def Let_def get_var_handle_def split: prod.splits)

lemma evaluate_expr_global_format:
  "global_format (snd (evaluate_expr h frame_id ctx e s)) = global_format s"
proof -
  obtain f e' where p: "parse_format_suffix format_codes (global_format s) e = (f, e')"
    by (cases "parse_format_suffix format_codes (global_format s) e")
  obtain r s1 where ev: "evaluate_expr_in_frame h e' (frame_of_handle frame_id s) s = (r, s1)"
    by (cases "evaluate_expr_in_frame h e' (frame_of_handle frame_id s) s")
  have g1: "global_format s1 = global_format s"
    using evaluate_expr_in_frame_global_format[of h e' "frame_of_handle frame_id s" s] ev by simp
  show ?thesis
    using p ev g1
    by (auto simp: evaluate_expr_def Let_def evaluate_expr_value_global_format console_err_def
        console_msg_def send_event_def send_message_def
        split: sum.splits pyvalue.splits)
qed

text \<open>Claim C7, as amended. For an expression that ends in a suffix of \<^verbatim>\<open>format_codes\<close>,
  \<^verbatim>\<open>evaluate_expr\<close> leaves the global format unchanged and evaluates the expression without
  the suffix; a result that is a debugger value (bare or wrapped) is rendered in the
  format of the suffix, a result that is any other Python object is rendered by its
  \<^verbatim>\<open>str()\<close> whatever the suffix. An expression with no suffix is rendered in the global
  format.\<close>

theorem format_suffix_overrides_one_evaluation:
  assumes sf: "(suffix, f) \<in> set format_codes"
  shows "global_format (snd (evaluate_expr h frame_id ctx (expr @ suffix) s)) = global_format s
       \<and> (\<forall>v s1.
            evaluate_expr_in_frame h expr (frame_of_handle frame_id s) s = (Inr (PySBValue v), s1)
          \<or> evaluate_expr_in_frame h expr (frame_of_handle frame_id s) s = (Inr (PyWrapped v), s1) \<longrightarrow>
            (let (handle, s2) = get_var_handle v (KName expr) None s1
             in evaluate_expr h frame_id ctx (expr @ suffix) s =
                  (Inr (JObj [(''result'', JStr (get_var_value_not_null v f (handle \<noteq> 0) s2)),
                              (''type'', JStr (sv_type_name v)),
                              (''variablesReference'', JInt handle)]), s2)))
       \<and> (\<forall>str_result s1.
            evaluate_expr_in_frame h expr (frame_of_handle frame_id s) s
              = (Inr (PyObject str_result), s1) \<longrightarrow>
            evaluate_expr h frame_id ctx (expr @ suffix) s =
              (Inr (JObj [(''result'', JStr str_result), (''variablesReference'', JInt 0)]), s1))
       \<and> (\<forall>expr' v s1.
            (\<forall>c \<in> set format_codes. \<not> endswith expr' (fst c))
          \<and> evaluate_expr_in_frame h expr' (frame_of_handle frame_id s) s = (Inr (PySBValue v), s1) \<longrightarrow>
            (let (handle, s2) = get_var_handle v (KName expr') None s1
             in evaluate_expr h frame_id ctx expr' s =
                  (Inr (JObj [(''result'', JStr (get_var_value_not_null v (global_format s) (handle \<noteq> 0) s2)),
                              (''type'', JStr (sv_type_name v)),
                              (''variablesReference'', JInt handle)]), s2)))"
proof (intro conjI allI impI)
  show "global_format (snd (evaluate_expr h frame_id ctx (expr @ suffix) s)) = global_format s"
    by (rule evaluate_expr_global_format)
next
  fix v s1
  assume "evaluate_expr_in_frame h expr (frame_of_handle frame_id s) s = (Inr (PySBValue v), s1)
        \<or> evaluate_expr_in_frame h expr (frame_of_handle frame_id s) s = (Inr (PyWrapped v), s1)"
  then show "let (handle, s2) = get_var_handle v (KName expr) None s1
             in evaluate_expr h frame_id ctx (expr @ suffix) s =
                  (Inr (JObj [(''result'', JStr (get_var_value_not_null v f (handle \<noteq> 0) s2)),
                              (''type'', JStr (sv_type_name v)),
                              (''variablesReference'', JInt handle)]), s2)"
    using parse_format_suffix_strip[OF sf, of "global_format s" expr]
    by (auto simp: evaluate_expr_def evaluate_expr_value_def Let_def split: prod.splits)
next
  fix str_result s1
  assume "evaluate_expr_in_frame h expr (frame_of_handle frame_id s) s = (Inr (PyObject str_result), s1)"
  then show "evaluate_expr h frame_id ctx (expr @ suffix) s =
              (Inr (JObj [(''result'', JStr str_result), (''variablesReference'', JInt 0)]), s1)"
    using parse_format_suffix_strip[OF sf, of "global_format s" expr]
    by (simp add: evaluate_expr_def Let_def)
next
  fix expr' v s1
  assume a: "(\<forall>c \<in> set format_codes. \<not> endswith expr' (fst c))
          \<and> evaluate_expr_in_frame h expr' (frame_of_handle frame_id s) s = (Inr (PySBValue v), s1)"
  then show "let (handle, s2) = get_var_handle v (KName expr') None s1
             in evaluate_expr h frame_id ctx expr' s =
                  (Inr (JObj [(''result'', JStr (get_var_value_not_null v (global_format s) (handle \<noteq> 0) s2)),
                              (''type'', JStr (sv_type_name v)),
                              (''variablesReference'', JInt handle)]), s2)"
    using parse_format_suffix_no_match[of format_codes expr' "global_format s"]
    by (auto simp: evaluate_expr_def evaluate_expr_value_def Let_def split: prod.splits)
qed

theorem format_suffix_witness:
  "evaluate_expr example_host None (Some ''watch'') ''/nat x,x'' example_session
   = (Inr (JObj [(''result'', JStr ''0xff''), (''type'', JStr ''int''),
                 (''variablesReference'', JInt 0)]), example_session)"
proof -
  have sf: "('',x'', eFormatHex) \<in> set format_codes"
    by (simp add: format_codes_def)
  have ev: "evaluate_expr_in_frame example_host ''/nat x'' (frame_of_handle None example_session)
              example_session = (Inr (PySBValue example_value), example_session)
          \<or> evaluate_expr_in_frame example_host ''/nat x'' (frame_of_handle None example_session)
              example_session = (Inr (PyWrapped example_value), example_session)"
    by (simp add: evaluate_expr_in_frame_def get_expression_type_def startswith_def
        example_host_def frame_of_handle_def)
  from format_suffix_overrides_one_evaluation[OF sf, of example_host None "Some ''watch''"
      "''/nat x''" example_session, THEN conjunct2, THEN conjunct1, rule_format, OF ev]
  show ?thesis
    by (simp add: get_var_handle_def example_value_def get_var_value_not_null_def
        get_var_value_def)
qed

text \<open>Claim C7 as stated fails: the watch expression \<^verbatim>\<open>/py 255,x\<close> evaluates to a Python
  integer, and the result is \<^verbatim>\<open>255\<close> with the suffix as without it.\<close>

theorem format_suffix_counterexample:
  "fst (evaluate_expr example_host None (Some ''watch'') ''/py 255,x'' example_session)
     = Inr (JObj [(''result'', JStr ''255''), (''variablesReference'', JInt 0)])
 \<and> fst (evaluate_expr example_host None (Some ''watch'') ''/py 255'' example_session)
     = Inr (JObj [(''result'', JStr ''255''), (''variablesReference'', JInt 0)])"
  by (simp add: evaluate_expr_def format_codes_def endswith_def evaluate_expr_in_frame_def
      get_expression_type_def startswith_def example_host_def frame_of_handle_def
      example_session_def init_session_def set_selected_frame_def Let_def)

subsection \<open>Resuming\<close>

lemma reverse_exec_var_refs: "var_refs (reverse_exec cs s) = var_refs s"
  by (induction cs arbitrary: s)
     (auto simp: console_err_def console_msg_def send_event_def send_message_def Let_def
           split: prod.splits)

lemma reverse_exec_issued_prefix:
  "\<exists>rest. issued (reverse_exec cs s) = issued s @ rest"
proof (induction cs arbitrary: s)
  case Nil
  show ?case by simp
next
  case (Cons c cs)
  obtain ok out where i: "interp s c = (ok, out)" by (cases "interp s c")
  show ?case
  proof (cases ok)
    case True
    from Cons[of "s\<lparr>issued := issued s @ [HandleCommand c]\<rparr>"]
    obtain rest where
      "issued (reverse_exec cs (s\<lparr>issued := issued s @ [HandleCommand c]\<rparr>)) =
       (issued s @ [HandleCommand c]) @ rest"
      by auto
    then show ?thesis using i True by simp
  next
    case False
    then show ?thesis using i
      by (simp add: console_err_def console_msg_def send_event_def send_message_def Let_def)
  qed
qed

lemma reverse_exec_issued:
  "\<exists>rest. issued (reverse_exec (c # cs) s) = issued s @ HandleCommand c # rest"
proof -
  obtain ok out where i: "interp s c = (ok, out)" by (cases "interp s c")
  show ?thesis
  proof (cases ok)
    case True
    from reverse_exec_issued_prefix[of cs "s\<lparr>issued := issued s @ [HandleCommand c]\<rparr>"]
    obtain rest where
      "issued (reverse_exec cs (s\<lparr>issued := issued s @ [HandleCommand c]\<rparr>)) =
       (issued s @ [HandleCommand c]) @ rest"
      by auto
    then show ?thesis using i True by simp
  next
    case False
    then show ?thesis using i
      by (simp add: console_err_def console_msg_def send_event_def send_message_def Let_def)
  qed
qed

text \<open>Claim C2, at the input where the code departs from it. \<^verbatim>\<open>DEBUG_stepBack\<close> and
  \<^verbatim>\<open>DEBUG_reverseContinue\<close> hand their first reverse-execution command to the backend and
  leave the handle tree as it was: they never call \<^verbatim>\<open>before_resume\<close>.\<close>

theorem reverse_resume_keeps_handles:
  "var_refs (snd (DEBUG_stepBack h tid s)) = var_refs s
 \<and> var_refs (snd (DEBUG_reverseContinue s)) = var_refs s
 \<and> (\<exists>rest. issued (snd (DEBUG_stepBack h tid s)) =
       issued s @ HandleCommand (''process plugin packet send Hc'' @ fmt_hex h tid) # rest)
 \<and> (\<exists>rest. issued (snd (DEBUG_reverseContinue s)) =
       issued s @ HandleCommand ''process plugin packet send bc'' # rest)"
proof -
  have v1: "var_refs (snd (DEBUG_stepBack h tid s)) = var_refs s"
    by (simp add: DEBUG_stepBack_def Let_def reverse_exec_var_refs del: reverse_exec.simps)
  have v2: "var_refs (snd (DEBUG_reverseContinue s)) = var_refs s"
    by (simp add: DEBUG_reverseContinue_def reverse_exec_var_refs del: reverse_exec.simps)
  have a: "\<exists>rest. issued (snd (DEBUG_stepBack h tid s)) =
       issued s @ HandleCommand (''process plugin packet send Hc'' @ fmt_hex h tid) # rest"
    using reverse_exec_issued[of "''process plugin packet send Hc'' @ fmt_hex h tid" _
        "s\<lparr>show_disassembly := ''always''\<rparr>"]
    by (simp add: DEBUG_stepBack_def Let_def del: reverse_exec.simps)
  have b: "\<exists>rest. issued (snd (DEBUG_reverseContinue s)) =
       issued s @ HandleCommand ''process plugin packet send bc'' # rest"
    using reverse_exec_issued[of "''process plugin packet send bc''" _ s]
    by (simp add: DEBUG_reverseContinue_def del: reverse_exec.simps)
  from v1 v2 a b show ?thesis by blast
qed

subsection \<open>Variables of a locals scope\<close>

text \<open>Claim C9, at the input where the code departs from it. For a handle of a locals scope
  whose thread reports a valid stop return value, \<^verbatim>\<open>DEBUG_variables\<close> raises
  \<^verbatim>\<open>UnboundLocalError\<close>: it reads the local \<^verbatim>\<open>var\<close> before the loop that first assigns it.\<close>

theorem return_value_raises:
  assumes "ht_get_vpath container_handle (var_refs s) = Some (LocalsScope fr, vpath)"
    and "process s = Some p"
    and "sv_is_valid (th_stop_return_value (GetThreadByID p (fr_thread_id fr)))"
  shows "DEBUG_variables h container_handle s = (Inl UnboundLocalError, s)"
  using assms
  by (simp add: DEBUG_variables_def variables_of_container_def read_local_def Let_def)

theorem return_value_raises_witness:
  "DEBUG_variables example_host 2 example_session = (Inl UnboundLocalError, example_session)"
proof -
  let ?p = "\<lparr>p_threads = [example_thread], p_selected = 7, p_continue_error = None\<rparr>"
  have v: "ht_get_vpath 2 (var_refs example_session)
             = Some (LocalsScope example_frame, [KFrame 7 0, KName ''[locs]''])"
    by (simp add: ht_get_vpath_def ht_get_def example_session_def init_session_def
        eval_nat_numeral)
  have p: "process example_session = Some ?p"
    by (simp add: example_session_def init_session_def)
  have r: "sv_is_valid (th_stop_return_value (GetThreadByID ?p (fr_thread_id example_frame)))"
    by (simp add: GetThreadByID_def example_thread_def example_frame_def example_value_def)
  from return_value_raises[OF v p r] show ?thesis .
qed

end
